theory Spec2Isabelle
  imports Complex_Main "HOL-Library.Multiset"
begin

section \<open>Module constants (main.py, lines 9-12)\<close>

text \<open>
  The two float literals are kept as the exact decimal values the source writes
  (\<open>0.5\<close> and \<open>0.001\<close>); no arithmetic is ever done on them here.
\<close>

definition NUM_EPOCHS :: int where
  "NUM_EPOCHS = 50"

definition BATCH_SIZE :: int where
  "BATCH_SIZE = 16"

definition KP_VALUE :: rat where
  "KP_VALUE = 1 / 2"

definition LR_VALUE :: rat where
  "LR_VALUE = 1 / 1000"

section \<open>Data model\<close>

text \<open>
  A TensorFlow tensor or operation handle is identified by its graph name.
  A value fed through \<open>feed_dict\<close> is either an array (an image batch, a label batch)
  or a Python scalar. A Python exception is its class name and its message.
\<close>

type_synonym tensor = string

datatype 'a feed_value = Array 'a | Scalar rat

datatype exn = Exn (exn_class: string) (exn_message: string)

text \<open>
  The three \<open>print\<close> calls at the end of an epoch (lines 136-138). The number formatting
  of \<open>"{:.3f}"\<close> is not modelled: a loss line carries the value that is formatted.
\<close>

datatype 'l line = Epoch_line int | Loss_line 'l | Blank_line

text \<open>
  Every call the script makes to a collaborator is recorded, in order, with what it
  returned where the script looks at the result. \<open>Sess_run fetches feed_dict r\<close> is
  one \<open>sess.run(fetches, feed_dict=...)\<close> of the training loop; \<open>r\<close> is the exception it
  raised or the loss it fetched.
\<close>

datatype ('a, 'l) event =
    Test_for_kitti_dataset string
  | Maybe_download_pretrained_vgg string
  | Load_vgg string
  | Build_layers
  | Build_optimizer
  | Init_variables
  | Get_batches int
  | Sess_run "tensor list" "(tensor \<times> 'a feed_value) list" "exn + 'l"
  | Printed "'l line"
  | Forward_pass tensor 'a
  | Write_output string 'a

text \<open>
  The world the script runs in: the state of the TensorFlow session (the model
  parameters and the optimizer's slots), everything else outside the process (file
  system, random number generator), and the record of calls made so far.
\<close>

record ('s, 'g, 'a, 'l) world =
  session :: 's
  outside :: 'g
  trace :: "('a, 'l) event list"

text \<open>A call either returns a value or raises; the world it leaves behind is kept in both cases.\<close>

datatype ('r, 'w) outcome = Returned 'r 'w | Raised exn 'w

fun final :: "('r, 'w) outcome \<Rightarrow> 'w" where
  "final (Returned r w) = w"
| "final (Raised e w) = w"

definition emit :: "('a, 'l) event \<Rightarrow> ('s, 'g, 'a, 'l) world \<Rightarrow> ('s, 'g, 'a, 'l) world" where
  "emit ev w = w\<lparr>trace := trace w @ [ev]\<rparr>"

section \<open>The training loop: \<open>train_nn\<close> (main.py, lines 111-138)\<close>

text \<open>
  \<open>sess\<close> is what \<open>sess.run\<close> does for the session object passed in: from the fetches,
  the feed and the session state it raises, or returns the fetched loss (the second
  fetched value, that of \<open>train_op\<close>, is discarded by the source as \<open>_\<close>) and the new
  session state. The dict literal of line 131 is the list of its four items in the
  order written.
\<close>

type_synonym ('s, 'a, 'l) sess_run =
  "tensor list \<Rightarrow> (tensor \<times> 'a feed_value) list \<Rightarrow> 's \<Rightarrow> exn + 'l \<times> 's"

text \<open>
  \<open>get_batches_fn(batch_size)\<close> is a generator: a finite sequence of
  \<open>(X_batch, y_batch)\<close> pairs, after which it either stops or raises. It reads and
  changes only the outside world; its whole effect on it is taken at the call.
\<close>

type_synonym ('g, 'a) get_batches =
  "int \<Rightarrow> 'g \<Rightarrow> (('a \<times> 'a) list \<times> exn option) \<times> 'g"

definition train_fetches :: "tensor \<Rightarrow> tensor \<Rightarrow> tensor list" where
  "train_fetches cross_entropy_loss train_op = [cross_entropy_loss, train_op]"

definition train_feed ::
  "tensor \<Rightarrow> tensor \<Rightarrow> tensor \<Rightarrow> tensor \<Rightarrow> 'a \<Rightarrow> 'a \<Rightarrow> (tensor \<times> 'a feed_value) list" where
  "train_feed input_image correct_label keep_prob learning_rate X_batch y_batch =
     [(input_image, Array X_batch), (correct_label, Array y_batch),
      (keep_prob, Scalar KP_VALUE), (learning_rate, Scalar LR_VALUE)]"

text \<open>Lines 130-132: one optimization step.\<close>

definition optimization_step ::
  "('s, 'a, 'l) sess_run \<Rightarrow> tensor \<Rightarrow> tensor \<Rightarrow> tensor \<Rightarrow> tensor \<Rightarrow> tensor \<Rightarrow> tensor \<Rightarrow>
   'a \<Rightarrow> 'a \<Rightarrow> ('s, 'g, 'a, 'l) world \<Rightarrow> ('l, ('s, 'g, 'a, 'l) world) outcome" where
  "optimization_step sess train_op cross_entropy_loss input_image correct_label keep_prob
       learning_rate X_batch y_batch w =
     (let fetches = train_fetches cross_entropy_loss train_op;
          feed_dict = train_feed input_image correct_label keep_prob learning_rate X_batch y_batch
      in case sess fetches feed_dict (session w) of
           Inl e \<Rightarrow> Raised e (emit (Sess_run fetches feed_dict (Inl e)) w)
         | Inr (loss, s') \<Rightarrow>
             Returned loss (emit (Sess_run fetches feed_dict (Inr loss)) (w\<lparr>session := s'\<rparr>)))"

text \<open>Lines 129-134: the loop over the batches of one epoch, \<open>total_loss += loss\<close>.\<close>

fun batches_loop ::
  "('a \<Rightarrow> 'a \<Rightarrow> 'w \<Rightarrow> ('l, 'w) outcome) \<Rightarrow> ('a \<times> 'a) list \<Rightarrow> 'l::plus \<Rightarrow> 'w \<Rightarrow> ('l, 'w) outcome" where
  "batches_loop step [] total_loss w = Returned total_loss w"
| "batches_loop step ((X_batch, y_batch) # rest) total_loss w =
     (case step X_batch y_batch w of
        Raised e w' \<Rightarrow> Raised e w'
      | Returned loss w' \<Rightarrow> batches_loop step rest (total_loss + loss) w')"

text \<open>The three prints of lines 136-138.\<close>

definition report :: "int \<Rightarrow> 'l \<Rightarrow> ('s, 'g, 'a, 'l) world \<Rightarrow> ('s, 'g, 'a, 'l) world" where
  "report epoch total_loss w =
     emit (Printed Blank_line)
       (emit (Printed (Loss_line total_loss))
         (emit (Printed (Epoch_line (epoch + 1))) w))"

text \<open>
  Lines 126-138: the loop over \<open>range(epochs)\<close>. Each epoch sets \<open>total_loss = 0\<close>, calls
  \<open>get_batches_fn(batch_size)\<close>, runs the batches and prints. An exception of the
  generator surfaces after the batches it yielded before raising have been run.
\<close>

fun epochs_loop ::
  "int \<Rightarrow> ('g, 'a) get_batches \<Rightarrow>
   ('a \<Rightarrow> 'a \<Rightarrow> ('s, 'g, 'a, 'l) world \<Rightarrow> ('l::{zero,plus}, ('s, 'g, 'a, 'l) world) outcome) \<Rightarrow>
   int list \<Rightarrow> ('s, 'g, 'a, 'l) world \<Rightarrow> (unit, ('s, 'g, 'a, 'l) world) outcome" where
  "epochs_loop batch_size get_batches_fn step [] w = Returned () w"
| "epochs_loop batch_size get_batches_fn step (epoch # rest) w =
     (let total_loss = 0;
          ((batches, failure), g') = get_batches_fn batch_size (outside w);
          w1 = emit (Get_batches batch_size) (w\<lparr>outside := g'\<rparr>)
      in case batches_loop step batches total_loss w1 of
           Raised e w2 \<Rightarrow> Raised e w2
         | Returned total_loss w2 \<Rightarrow>
             (case failure of
                Some e \<Rightarrow> Raised e w2
              | None \<Rightarrow> epochs_loop batch_size get_batches_fn step rest (report epoch total_loss w2)))"

text \<open>Python's \<open>range(n)\<close> for an integer \<open>n\<close>: empty when \<open>n \<le> 0\<close>.\<close>

definition range_py :: "int \<Rightarrow> int list" where
  "range_py n = [0..n - 1]"

definition train_nn ::
  "('s, 'a, 'l) sess_run \<Rightarrow> int \<Rightarrow> int \<Rightarrow> ('g, 'a) get_batches \<Rightarrow>
   tensor \<Rightarrow> tensor \<Rightarrow> tensor \<Rightarrow> tensor \<Rightarrow> tensor \<Rightarrow> tensor \<Rightarrow>
   ('s, 'g, 'a, 'l) world \<Rightarrow> (unit, ('s, 'g, 'a, 'l::{zero,plus}) world) outcome" where
  "train_nn sess epochs batch_size get_batches_fn train_op cross_entropy_loss input_image
       correct_label keep_prob learning_rate w =
     epochs_loop batch_size get_batches_fn
       (optimization_step sess train_op cross_entropy_loss input_image correct_label keep_prob
          learning_rate)
       (range_py epochs) w"

text \<open>
  What the record of calls says about the training loop. \<open>ok_step\<close>: the event is an
  optimization step of \<open>train_nn\<close> (its fetches, its feed for some batch) that returned
  a loss. \<open>fetched\<close>: the losses the successful steps of a stretch of the record
  returned, in order. \<open>epoch_record\<close>: what one completed epoch leaves in the record:
  the call of the generator, the steps, and the three printed lines, the loss line
  carrying the left-to-right sum, from 0, of the losses fetched by these steps only.
\<close>

definition ok_step ::
  "tensor \<Rightarrow> tensor \<Rightarrow> tensor \<Rightarrow> tensor \<Rightarrow> tensor \<Rightarrow> tensor \<Rightarrow> ('a, 'l) event \<Rightarrow> bool" where
  "ok_step train_op cross_entropy_loss input_image correct_label keep_prob learning_rate ev =
     (\<exists>X_batch y_batch loss.
        ev = Sess_run (train_fetches cross_entropy_loss train_op)
               (train_feed input_image correct_label keep_prob learning_rate X_batch y_batch)
               (Inr loss))"

fun fetched :: "('a, 'l) event list \<Rightarrow> 'l list" where
  "fetched [] = []"
| "fetched (Sess_run f fd (Inr l) # evs) = l # fetched evs"
| "fetched (ev # evs) = fetched evs"

definition epoch_record ::
  "int \<Rightarrow> int \<Rightarrow> ('a, 'l::{zero,plus}) event list \<Rightarrow> ('a, 'l) event list" where
  "epoch_record batch_size epoch steps =
     Get_batches batch_size # steps @
       [Printed (Epoch_line (epoch + 1)), Printed (Loss_line (foldl (+) 0 (fetched steps))),
        Printed Blank_line]"

fun is_sess_run :: "('a, 'l) event \<Rightarrow> bool" where
  "is_sess_run (Sess_run f fd r) = True"
| "is_sess_run ev = False"

fun is_failed_step :: "('a, 'l) event \<Rightarrow> bool" where
  "is_failed_step (Sess_run f fd (Inl e)) = True"
| "is_failed_step ev = False"

fun is_loss_line :: "('a, 'l) event \<Rightarrow> bool" where
  "is_loss_line (Printed (Loss_line l)) = True"
| "is_loss_line ev = False"

fun is_get_batches :: "('a, 'l) event \<Rightarrow> bool" where
  "is_get_batches (Get_batches b) = True"
| "is_get_batches ev = False"

text \<open>The events a call adds to the record: those after the ones already there.\<close>

definition added :: "('s, 'g, 'a, 'l) world \<Rightarrow> ('s, 'g, 'a, 'l) world \<Rightarrow> ('a, 'l) event list" where
  "added w w' = drop (length (trace w)) (trace w')"

section \<open>The batch generator\<close>

text \<open>
  Modelled from the spec: \<open>helper.gen_batch_function\<close> and the generator it returns are
  not in \<open>main.py\<close>. The spec (sections 3, 4.1 and 8) says: given a batch size of at least 1,
  the generator puts the training set in a freshly randomized order and yields it in
  batches of that size, the last one possibly short, as pairs of an image batch and a
  label batch. The random source is the list of the numbers it will draw (an exhausted
  source draws 0); each sample is inserted at a drawn position among those already placed.
\<close>

fun draw :: "nat list \<Rightarrow> nat \<times> nat list" where
  "draw [] = (0, [])"
| "draw (r # rng) = (r, rng)"

fun shuffle :: "'i list \<Rightarrow> nat list \<Rightarrow> 'i list \<times> nat list" where
  "shuffle [] rng = ([], rng)"
| "shuffle (x # xs) rng =
     (let (ys, rng1) = shuffle xs rng;
          (r, rng2) = draw rng1;
          i = r mod (length ys + 1)
      in (take i ys @ x # drop i ys, rng2))"

function chunks :: "nat \<Rightarrow> 'i list \<Rightarrow> 'i list list" where
  "chunks b xs = (if b = 0 \<or> xs = [] then [] else take b xs # chunks b (drop b xs))"
  by pat_completeness auto
termination
  by (relation "measure (\<lambda>(b, xs). length xs)") auto

declare chunks.simps [simp del]

definition batch_generator :: "('i \<times> 'i) list \<Rightarrow> (nat list, 'i list) get_batches" where
  "batch_generator training_set batch_size rng =
     (if batch_size < 1 then (([], Some (Exn ''ValueError'' ''batch size must be at least 1'')), rng)
      else
        (let (order, rng') = shuffle training_set rng
         in ((map (\<lambda>c. (map fst c, map snd c)) (chunks (nat batch_size) order), None), rng')))"

text \<open>The samples of a batch: its images paired with its labels.\<close>

definition samples_of :: "'i list \<times> 'i list \<Rightarrow> ('i \<times> 'i) list" where
  "samples_of batch = zip (fst batch) (snd batch)"

section \<open>Tensor shapes in \<open>layers\<close> (main.py, lines 53-81)\<close>

text \<open>
  A tensor is represented by the shape it has when the graph is evaluated, a list of
  dimensions. The three TensorFlow operations \<open>layers\<close> uses act on shapes as follows.
  \<open>tf.layers.conv2d\<close> with its defaults (stride 1, padding \<open>valid\<close>) turns a rank-4
  input \<open>[n, h, w, c]\<close> into \<open>[n, h - k + 1, w - k + 1, filters]\<close>.
  \<open>tf.layers.conv2d_transpose\<close> multiplies height and width by the strides under
  padding \<open>SAME\<close> (and adds \<open>max (k - stride) 0\<close> under \<open>VALID\<close>). \<open>tf.add\<close> needs
  shapes that broadcast: aligned from the last dimension, two dimensions must be equal
  or one of them 1. \<open>get_shape().as_list()[-1]\<close> is the last dimension.
  A result \<open>Inl\<close> means that TensorFlow rejects the operation on such tensors: when the
  graph is built if the shapes are known then, when it is run otherwise.
\<close>

type_synonym shape = "nat list"

datatype padding = SAME | VALID

definition conv2d :: "shape \<Rightarrow> nat \<Rightarrow> nat \<Rightarrow> exn + shape" where
  "conv2d inputs filters kernel_size =
     (case inputs of
        [n, h, w, c] \<Rightarrow>
          if h + 1 < kernel_size \<or> w + 1 < kernel_size
          then Inl (Exn ''ValueError'' ''Negative dimension size'')
          else Inr [n, h + 1 - kernel_size, w + 1 - kernel_size, filters]
      | _ \<Rightarrow> Inl (Exn ''ValueError'' ''Input is incompatible with the layer: expected ndim=4''))"

definition deconv_length :: "nat \<Rightarrow> nat \<Rightarrow> padding \<Rightarrow> nat \<Rightarrow> nat" where
  "deconv_length input_length kernel_size pad stride =
     (case pad of
        SAME \<Rightarrow> input_length * stride
      | VALID \<Rightarrow> input_length * stride + (kernel_size - stride))"

definition conv2d_transpose :: "shape \<Rightarrow> nat \<Rightarrow> nat \<Rightarrow> nat \<times> nat \<Rightarrow> padding \<Rightarrow> exn + shape" where
  "conv2d_transpose inputs filters kernel_size strides pad =
     (case inputs of
        [n, h, w, c] \<Rightarrow>
          Inr [n, deconv_length h kernel_size pad (fst strides),
               deconv_length w kernel_size pad (snd strides), filters]
      | _ \<Rightarrow> Inl (Exn ''ValueError'' ''Input is incompatible with the layer: expected ndim=4''))"

text \<open>Broadcasting, on the reversed shapes (last dimension first).\<close>

fun broadcast_rev :: "shape \<Rightarrow> shape \<Rightarrow> shape option" where
  "broadcast_rev [] ys = Some ys"
| "broadcast_rev xs [] = Some xs"
| "broadcast_rev (x # xs) (y # ys) =
     (if x = y \<or> y = 1 then map_option ((#) x) (broadcast_rev xs ys)
      else if x = 1 then map_option ((#) y) (broadcast_rev xs ys)
      else None)"

definition tf_add :: "shape \<Rightarrow> shape \<Rightarrow> exn + shape" where
  "tf_add x y =
     (case broadcast_rev (rev x) (rev y) of
        None \<Rightarrow> Inl (Exn ''InvalidArgumentError'' ''Incompatible shapes'')
      | Some s \<Rightarrow> Inr (rev s))"

definition last_dim :: "shape \<Rightarrow> exn + nat" where
  "last_dim s = (if s = [] then Inl (Exn ''IndexError'' ''list index out of range'') else Inr (last s))"

definition and_then :: "exn + 'x \<Rightarrow> ('x \<Rightarrow> exn + 'y) \<Rightarrow> exn + 'y" where
  "and_then r k = (case r of Inl e \<Rightarrow> Inl e | Inr x \<Rightarrow> k x)"

text \<open>
  The tensors of \<open>layers\<close>, one definition per assignment of the source (lines 64, 67, 70,
  73, 76, 79), each under the name of the variable it is bound to; \<open>layers\<close> returns
  the last one.
\<close>

definition fcn_layer8 :: "shape \<Rightarrow> nat \<Rightarrow> exn + shape" where
  "fcn_layer8 vgg_layer7_out num_classes = conv2d vgg_layer7_out num_classes 1"

definition fcn_layer9 :: "shape \<Rightarrow> shape \<Rightarrow> nat \<Rightarrow> exn + shape" where
  "fcn_layer9 vgg_layer4_out vgg_layer7_out num_classes =
     and_then (fcn_layer8 vgg_layer7_out num_classes) (\<lambda>layer8.
     and_then (last_dim vgg_layer4_out) (\<lambda>filters.
       conv2d_transpose layer8 filters 4 (2, 2) SAME))"

definition fcn_layer9_skip_from_layer4 :: "shape \<Rightarrow> shape \<Rightarrow> nat \<Rightarrow> exn + shape" where
  "fcn_layer9_skip_from_layer4 vgg_layer4_out vgg_layer7_out num_classes =
     and_then (fcn_layer9 vgg_layer4_out vgg_layer7_out num_classes) (\<lambda>layer9.
       tf_add layer9 vgg_layer4_out)"

definition fcn_layer10 :: "shape \<Rightarrow> shape \<Rightarrow> shape \<Rightarrow> nat \<Rightarrow> exn + shape" where
  "fcn_layer10 vgg_layer3_out vgg_layer4_out vgg_layer7_out num_classes =
     and_then (fcn_layer9_skip_from_layer4 vgg_layer4_out vgg_layer7_out num_classes) (\<lambda>skip4.
     and_then (last_dim vgg_layer3_out) (\<lambda>filters.
       conv2d_transpose skip4 filters 4 (2, 2) SAME))"

definition fcn_layer10_skip_from_layer3 :: "shape \<Rightarrow> shape \<Rightarrow> shape \<Rightarrow> nat \<Rightarrow> exn + shape" where
  "fcn_layer10_skip_from_layer3 vgg_layer3_out vgg_layer4_out vgg_layer7_out num_classes =
     and_then (fcn_layer10 vgg_layer3_out vgg_layer4_out vgg_layer7_out num_classes) (\<lambda>layer10.
       tf_add layer10 vgg_layer3_out)"

definition layers :: "shape \<Rightarrow> shape \<Rightarrow> shape \<Rightarrow> nat \<Rightarrow> exn + shape" where
  "layers vgg_layer3_out vgg_layer4_out vgg_layer7_out num_classes =
     and_then (fcn_layer10_skip_from_layer3 vgg_layer3_out vgg_layer4_out vgg_layer7_out num_classes)
       (\<lambda>skip3. conv2d_transpose skip3 num_classes 16 (8, 8) SAME)"

section \<open>The entry point: \<open>run\<close> (main.py, lines 142-182)\<close>

text \<open>
  The collaborators of \<open>run\<close> that are not defined in \<open>main.py\<close>, as functions of the
  state they read and change: the two checks of the data directory
  (\<open>tests.test_for_kitti_dataset\<close> returns or raises, \<open>helper.maybe_download_pretrained_vgg\<close>
  may change the file system or raise), \<open>helper.gen_batch_function\<close>, the TensorFlow
  calls that build the graph in the session (the loader of the saved model, the lookup
  of a tensor by name, the graph nodes added by \<open>layers\<close> and by \<open>optimize\<close>, whose
  shapes are the subject of the previous section, and the initializer), \<open>sess.run\<close>,
  and what the inference phase needs: the timestamped output directory, the test
  images with their file names, the evaluation of an output tensor for one image, the
  overlay of the scores on the image, and the writing of a file.
\<close>

record ('s, 'g, 'a, 'l) env =
  test_for_kitti_dataset :: "string \<Rightarrow> 'g \<Rightarrow> exn option"
  maybe_download_pretrained_vgg :: "string \<Rightarrow> 'g \<Rightarrow> exn + 'g"
  gen_batch_function :: "string \<Rightarrow> nat \<times> nat \<Rightarrow> ('g, 'a) get_batches"
  loader_load :: "string list \<Rightarrow> string \<Rightarrow> 'g \<Rightarrow> 's \<Rightarrow> exn + 's"
  get_tensor_by_name :: "string \<Rightarrow> 's \<Rightarrow> exn + tensor"
  graph_layers :: "tensor \<Rightarrow> tensor \<Rightarrow> tensor \<Rightarrow> nat \<Rightarrow> 's \<Rightarrow> exn + tensor \<times> 's"
  graph_optimize :: "tensor \<Rightarrow> tensor \<Rightarrow> tensor \<Rightarrow> nat \<Rightarrow> 's \<Rightarrow> exn + (tensor \<times> tensor \<times> tensor) \<times> 's"
  global_variables_initializer :: "'s \<Rightarrow> exn + 's"
  session_run :: "('s, 'a, 'l) sess_run"
  output_dir :: "string \<Rightarrow> 'g \<Rightarrow> string"
  test_images :: "string \<Rightarrow> nat \<times> nat \<Rightarrow> 'g \<Rightarrow> (string \<times> 'a) list"
  evaluate :: "tensor \<Rightarrow> tensor \<Rightarrow> tensor \<Rightarrow> 'a \<Rightarrow> 's \<Rightarrow> exn + 'a"
  overlay :: "'a \<Rightarrow> 'a \<Rightarrow> 'a"
  write_file :: "string \<Rightarrow> string \<Rightarrow> 'a \<Rightarrow> 'g \<Rightarrow> exn + 'g"

text \<open>Sequencing: the second call runs only if the first returned; an exception propagates.\<close>

definition call ::
  "('w \<Rightarrow> ('r, 'w) outcome) \<Rightarrow> ('r \<Rightarrow> 'w \<Rightarrow> ('q, 'w) outcome) \<Rightarrow> 'w \<Rightarrow> ('q, 'w) outcome" where
  "call f k w = (case f w of Raised e w' \<Rightarrow> Raised e w' | Returned r w' \<Rightarrow> k r w')"

text \<open>\<open>os.path.join\<close> of two components.\<close>

definition path_join :: "string \<Rightarrow> string \<Rightarrow> string" where
  "path_join a b =
     (if b \<noteq> [] \<and> hd b = CHR ''/'' then b
      else if a = [] \<or> last a = CHR ''/'' then a @ b
      else a @ ''/'' @ b)"

text \<open>Line 151 and line 154, each recorded, then raising or returning.\<close>

definition check_dataset ::
  "('s, 'g, 'a, 'l) env \<Rightarrow> string \<Rightarrow> ('s, 'g, 'a, 'l) world \<Rightarrow> (unit, ('s, 'g, 'a, 'l) world) outcome" where
  "check_dataset c data_dir w =
     (let w1 = emit (Test_for_kitti_dataset data_dir) w
      in case test_for_kitti_dataset c data_dir (outside w) of
           Some e \<Rightarrow> Raised e w1
         | None \<Rightarrow> Returned () w1)"

definition download_vgg ::
  "('s, 'g, 'a, 'l) env \<Rightarrow> string \<Rightarrow> ('s, 'g, 'a, 'l) world \<Rightarrow> (unit, ('s, 'g, 'a, 'l) world) outcome" where
  "download_vgg c data_dir w =
     (let w1 = emit (Maybe_download_pretrained_vgg data_dir) w
      in case maybe_download_pretrained_vgg c data_dir (outside w) of
           Inl e \<Rightarrow> Raised e w1
         | Inr g' \<Rightarrow> Returned () (w1\<lparr>outside := g'\<rparr>))"

text \<open>\<open>load_vgg\<close> (lines 25-49): load the saved model, then look the five tensors up by name.\<close>

definition saved_model_load ::
  "('s, 'g, 'a, 'l) env \<Rightarrow> string list \<Rightarrow> string \<Rightarrow> ('s, 'g, 'a, 'l) world \<Rightarrow>
   (unit, ('s, 'g, 'a, 'l) world) outcome" where
  "saved_model_load c tags vgg_path w =
     (let w1 = emit (Load_vgg vgg_path) w
      in case loader_load c tags vgg_path (outside w) (session w) of
           Inl e \<Rightarrow> Raised e w1
         | Inr s' \<Rightarrow> Returned () (w1\<lparr>session := s'\<rparr>))"

definition tensor_by_name ::
  "('s, 'g, 'a, 'l) env \<Rightarrow> string \<Rightarrow> ('s, 'g, 'a, 'l) world \<Rightarrow> (tensor, ('s, 'g, 'a, 'l) world) outcome" where
  "tensor_by_name c name w =
     (case get_tensor_by_name c name (session w) of
        Inl e \<Rightarrow> Raised e w
      | Inr t \<Rightarrow> Returned t w)"

definition load_vgg ::
  "('s, 'g, 'a, 'l) env \<Rightarrow> string \<Rightarrow> ('s, 'g, 'a, 'l) world \<Rightarrow>
   (tensor \<times> tensor \<times> tensor \<times> tensor \<times> tensor, ('s, 'g, 'a, 'l) world) outcome" where
  "load_vgg c vgg_path =
     (let vgg_tag = ''vgg16'';
          vgg_input_tensor_name = ''image_input:0'';
          vgg_keep_prob_tensor_name = ''keep_prob:0'';
          vgg_layer3_out_tensor_name = ''layer3_out:0'';
          vgg_layer4_out_tensor_name = ''layer4_out:0'';
          vgg_layer7_out_tensor_name = ''layer7_out:0''
      in call (saved_model_load c [vgg_tag] vgg_path) (\<lambda>_.
         call (tensor_by_name c vgg_input_tensor_name) (\<lambda>input.
         call (tensor_by_name c vgg_keep_prob_tensor_name) (\<lambda>keep.
         call (tensor_by_name c vgg_layer3_out_tensor_name) (\<lambda>layer3.
         call (tensor_by_name c vgg_layer4_out_tensor_name) (\<lambda>layer4.
         call (tensor_by_name c vgg_layer7_out_tensor_name) (\<lambda>layer7.
           Returned (input, keep, layer3, layer4, layer7))))))))"

text \<open>Lines 171, 172 and 174 as steps on the session: each is recorded, and raises or returns.\<close>

definition build_layers ::
  "('s, 'g, 'a, 'l) env \<Rightarrow> tensor \<Rightarrow> tensor \<Rightarrow> tensor \<Rightarrow> nat \<Rightarrow> ('s, 'g, 'a, 'l) world \<Rightarrow>
   (tensor, ('s, 'g, 'a, 'l) world) outcome" where
  "build_layers c layer3 layer4 layer7 num_classes w =
     (let w1 = emit Build_layers w
      in case graph_layers c layer3 layer4 layer7 num_classes (session w) of
           Inl e \<Rightarrow> Raised e w1
         | Inr (model_out, s') \<Rightarrow> Returned model_out (w1\<lparr>session := s'\<rparr>))"

definition build_optimizer ::
  "('s, 'g, 'a, 'l) env \<Rightarrow> tensor \<Rightarrow> tensor \<Rightarrow> tensor \<Rightarrow> nat \<Rightarrow> ('s, 'g, 'a, 'l) world \<Rightarrow>
   (tensor \<times> tensor \<times> tensor, ('s, 'g, 'a, 'l) world) outcome" where
  "build_optimizer c nn_last_layer correct_label learning_rate num_classes w =
     (let w1 = emit Build_optimizer w
      in case graph_optimize c nn_last_layer correct_label learning_rate num_classes (session w) of
           Inl e \<Rightarrow> Raised e w1
         | Inr (ops, s') \<Rightarrow> Returned ops (w1\<lparr>session := s'\<rparr>))"

definition init_variables ::
  "('s, 'g, 'a, 'l) env \<Rightarrow> ('s, 'g, 'a, 'l) world \<Rightarrow> (unit, ('s, 'g, 'a, 'l) world) outcome" where
  "init_variables c w =
     (let w1 = emit Init_variables w
      in case global_variables_initializer c (session w) of
           Inl e \<Rightarrow> Raised e w1
         | Inr s' \<Rightarrow> Returned () (w1\<lparr>session := s'\<rparr>))"

text \<open>
  Lines 143-179 of \<open>run\<close>, up to and including the call of \<open>train_nn\<close>; it returns the
  three handles line 182 passes on. The two placeholders of lines 148-149 are named
  after the variables they are bound to.
\<close>

definition run_training ::
  "('s, 'g, 'a, 'l::{zero,plus}) env \<Rightarrow> ('s, 'g, 'a, 'l) world \<Rightarrow>
   (tensor \<times> tensor \<times> tensor, ('s, 'g, 'a, 'l) world) outcome" where
  "run_training c =
     (let num_classes = 2;
          image_shape = (160, 576);
          data_dir = ''./data'';
          correct_label = ''correct_label'';
          learning_rate = ''learning_rate''
      in call (check_dataset c data_dir) (\<lambda>_.
         call (download_vgg c data_dir) (\<lambda>_.
         (let vgg_path = path_join data_dir ''vgg'';
              get_batches_fn = gen_batch_function c (path_join data_dir ''data_road/training'') image_shape
          in call (load_vgg c vgg_path) (\<lambda>(img_input, keep_prob, layer3, layer4, layer7).
             call (build_layers c layer3 layer4 layer7 num_classes) (\<lambda>model_out.
             call (build_optimizer c model_out correct_label learning_rate num_classes)
               (\<lambda>(logits, train_op, cross_entropy_loss).
             call (init_variables c) (\<lambda>_.
             call (train_nn (session_run c) NUM_EPOCHS BATCH_SIZE get_batches_fn train_op
                     cross_entropy_loss img_input correct_label keep_prob learning_rate) (\<lambda>_.
               Returned (logits, keep_prob, img_input))))))))))"

text \<open>
  Modelled from the spec: \<open>helper.save_inference_samples\<close> is not in \<open>main.py\<close>. The spec
  (section 4.3) says: for each image of the fixed test directory, one forward pass
  through the trained model (the collaborator's "evaluate an output tensor given a
  feed", section 6), the scores are thresholded, colorized and overlaid on the image,
  and the composite is written to a timestamped output directory; purely sequential.
\<close>

fun inference_loop ::
  "('s, 'g, 'a, 'l) env \<Rightarrow> string \<Rightarrow> tensor \<Rightarrow> tensor \<Rightarrow> tensor \<Rightarrow> (string \<times> 'a) list \<Rightarrow>
   ('s, 'g, 'a, 'l) world \<Rightarrow> (unit, ('s, 'g, 'a, 'l) world) outcome" where
  "inference_loop c out logits keep_prob input_image [] w = Returned () w"
| "inference_loop c out logits keep_prob input_image ((name, img) # rest) w =
     (let w1 = emit (Forward_pass logits img) w
      in case evaluate c logits keep_prob input_image img (session w) of
           Inl e \<Rightarrow> Raised e w1
         | Inr scores \<Rightarrow>
             (let composite = overlay c img scores;
                  w2 = emit (Write_output name composite) w1
              in case write_file c out name composite (outside w) of
                   Inl e \<Rightarrow> Raised e w2
                 | Inr g' \<Rightarrow>
                     inference_loop c out logits keep_prob input_image rest (w2\<lparr>outside := g'\<rparr>)))"

definition save_inference_samples ::
  "('s, 'g, 'a, 'l) env \<Rightarrow> string \<Rightarrow> string \<Rightarrow> nat \<times> nat \<Rightarrow> tensor \<Rightarrow> tensor \<Rightarrow> tensor \<Rightarrow>
   ('s, 'g, 'a, 'l) world \<Rightarrow> (unit, ('s, 'g, 'a, 'l) world) outcome" where
  "save_inference_samples c runs_dir data_dir image_shape logits keep_prob input_image w =
     inference_loop c (output_dir c runs_dir (outside w)) logits keep_prob input_image
       (test_images c data_dir image_shape (outside w)) w"

text \<open>\<open>run\<close>: lines 143-179, then line 182.\<close>

definition run ::
  "('s, 'g, 'a, 'l::{zero,plus}) env \<Rightarrow> ('s, 'g, 'a, 'l) world \<Rightarrow>
   (unit, ('s, 'g, 'a, 'l) world) outcome" where
  "run c =
     (let image_shape = (160, 576);
          data_dir = ''./data'';
          runs_dir = ''./runs''
      in call (run_training c) (\<lambda>(logits, keep_prob, img_input).
           save_inference_samples c runs_dir data_dir image_shape logits keep_prob img_input))"

text \<open>
  What \<open>run\<close> leaves in the record before it calls \<open>train_nn\<close> when nothing raises
  (lines 151-174), and the events of the inference phase.
\<close>

definition setup_record :: "('a, 'l) event list" where
  "setup_record =
     [Test_for_kitti_dataset ''./data'', Maybe_download_pretrained_vgg ''./data'',
      Load_vgg ''./data/vgg'', Build_layers, Build_optimizer, Init_variables]"

fun is_inference :: "('a, 'l) event \<Rightarrow> bool" where
  "is_inference (Forward_pass t x) = True"
| "is_inference (Write_output n x) = True"
| "is_inference ev = False"

section \<open>A small scenario\<close>

text \<open>
  A concrete world to run the definitions in: arrays are numbers, the session state
  counts the optimization steps applied, the outside world counts the calls of the
  batch generator. \<open>toy_sess\<close> returns the number of the step as its loss and raises
  on the sixth step; \<open>steady_sess\<close> never raises. \<open>toy_batches\<close> yields two batches
  (of a four-sample data set, at batch size 2) on every call.
\<close>

definition toy_sess :: "(nat, nat, int) sess_run" where
  "toy_sess fetches feed_dict s =
     (if s < 5 then Inr (int (Suc s), Suc s)
      else Inl (Exn ''InvalidArgumentError'' ''Incompatible shapes''))"

definition steady_sess :: "(nat, nat, int) sess_run" where
  "steady_sess fetches feed_dict s = Inr (1, Suc s)"

definition toy_batches :: "(nat, nat) get_batches" where
  "toy_batches batch_size g = (([(0, 10), (1, 11)], None), Suc g)"

definition toy_world :: "(nat, nat, nat, int) world" where
  "toy_world = \<lparr>session = 0, outside = 0, trace = []\<rparr>"

definition toy_env :: "(nat, nat, nat, int) env" where
  "toy_env =
     \<lparr>test_for_kitti_dataset = (\<lambda>data_dir g. None),
      maybe_download_pretrained_vgg = (\<lambda>data_dir g. Inr g),
      gen_batch_function = (\<lambda>data_folder image_shape. toy_batches),
      loader_load = (\<lambda>tags path g s. Inr s),
      get_tensor_by_name = (\<lambda>name s. Inr name),
      graph_layers = (\<lambda>layer3 layer4 layer7 num_classes s. Inr (''fcn_layer11'', s)),
      graph_optimize = (\<lambda>nn_last_layer correct_label learning_rate num_classes s.
         Inr ((''fcn_logits'', ''fcn_train_op'', ''fcn_loss''), s)),
      global_variables_initializer = (\<lambda>s. Inr 0),
      session_run = toy_sess,
      output_dir = (\<lambda>runs_dir g. runs_dir @ ''/1''),
      test_images = (\<lambda>data_dir image_shape g. [(''um_000000.png'', 7), (''um_000001.png'', 8)]),
      evaluate = (\<lambda>logits keep_prob input_image img s. Inr (img + s)),
      overlay = (\<lambda>img scores. img + scores),
      write_file = (\<lambda>dir name composite g. Inr (Suc g))\<rparr>"

text \<open>
  Three variants: the dataset check fails, the model download fails, and a session
  that never raises.
\<close>

definition no_dataset_env :: "(nat, nat, nat, int) env" where
  "no_dataset_env =
     toy_env\<lparr>test_for_kitti_dataset :=
       (\<lambda>data_dir g. Some (Exn ''AssertionError'' ''data_road dataset not found''))\<rparr>"

definition no_model_env :: "(nat, nat, nat, int) env" where
  "no_model_env =
     toy_env\<lparr>maybe_download_pretrained_vgg :=
       (\<lambda>data_dir g. Inl (Exn ''URLError'' ''cannot download the vgg model''))\<rparr>"

definition steady_env :: "(nat, nat, nat, int) env" where
  "steady_env = toy_env\<lparr>session_run := steady_sess\<rparr>"

section \<open>Properties\<close>

subsection \<open>The record of a call of \<open>train_nn\<close> and of \<open>run\<close>\<close>


lemma optimization_step_cases:
  assumes "optimization_step sess trn cel ii cl kp lr X y w = r"
  shows "(\<exists>l s'. sess (train_fetches cel trn) (train_feed ii cl kp lr X y) (session w) = Inr (l, s') \<and>
            r = Returned l (emit (Sess_run (train_fetches cel trn) (train_feed ii cl kp lr X y) (Inr l))
                  (w\<lparr>session := s'\<rparr>))) \<or>
         (\<exists>e. sess (train_fetches cel trn) (train_feed ii cl kp lr X y) (session w) = Inl e \<and>
            r = Raised e (emit (Sess_run (train_fetches cel trn) (train_feed ii cl kp lr X y) (Inl e)) w))"
  using assms by (auto simp: optimization_step_def Let_def split: sum.splits)

lemma fetched_append_ok [simp]:
  "fetched (xs @ ys) = fetched xs @ fetched ys"
  by (induction xs rule: fetched.induct) auto

lemma batches_loop_record:
  assumes "batches_loop (optimization_step sess trn cel ii cl kp lr) bs t w = r"
  shows "\<exists>steps. list_all (ok_step trn cel ii cl kp lr) steps \<and> outside (final r) = outside w \<and>
      (case r of
         Returned t' w' \<Rightarrow>
           trace w' = trace w @ steps \<and> t' = foldl (+) t (fetched steps) \<and> length steps = length bs
       | Raised e w' \<Rightarrow>
           (\<exists>X y. trace w' = trace w @ steps @
              [Sess_run (train_fetches cel trn) (train_feed ii cl kp lr X y) (Inl e)]) \<and>
           length steps < length bs)"
  using assms
proof (induction bs arbitrary: t w r)
  case Nil
  then show ?case by (intro exI [of _ "[]"]) auto
next
  case (Cons b bs)
  obtain X y where b: "b = (X, y)" by (cases b)
  let ?f = "train_fetches cel trn" and ?fd = "train_feed ii cl kp lr X y"
  from optimization_step_cases [OF refl, where sess = sess and trn = trn and cel = cel and ii = ii and cl = cl
      and kp = kp and lr = lr and X = X and y = y and w = w]
  consider (ok) l s' where "optimization_step sess trn cel ii cl kp lr X y w =
        Returned l (emit (Sess_run ?f ?fd (Inr l)) (w\<lparr>session := s'\<rparr>))"
    | (bad) e where "optimization_step sess trn cel ii cl kp lr X y w =
        Raised e (emit (Sess_run ?f ?fd (Inl e)) w)"
    by blast
  then show ?case
  proof cases
    case ok
    let ?w1 = "emit (Sess_run ?f ?fd (Inr l)) (w\<lparr>session := s'\<rparr>)"
    from Cons.prems b ok have r: "batches_loop (optimization_step sess trn cel ii cl kp lr) bs (t + l) ?w1 = r"
      by simp
    from Cons.IH [OF r] obtain steps where
      st: "list_all (ok_step trn cel ii cl kp lr) steps" "outside (final r) = outside ?w1"
      "(case r of
         Returned t' w' \<Rightarrow>
           trace w' = trace ?w1 @ steps \<and> t' = foldl (+) (t + l) (fetched steps) \<and> length steps = length bs
       | Raised e w' \<Rightarrow>
           (\<exists>X y. trace w' = trace ?w1 @ steps @
              [Sess_run (train_fetches cel trn) (train_feed ii cl kp lr X y) (Inl e)]) \<and>
           length steps < length bs)"
      by blast
    have okl: "ok_step trn cel ii cl kp lr (Sess_run ?f ?fd (Inr l))"
      by (auto simp: ok_step_def)
    show ?thesis
      using st okl
      by (intro exI [of _ "Sess_run ?f ?fd (Inr l) # steps"])
         (auto simp: emit_def split: outcome.splits)
  next
    case bad
    from Cons.prems b bad have r: "r = Raised e (emit (Sess_run ?f ?fd (Inl e)) w)"
      by simp
    show ?thesis
      unfolding r by (intro exI [of _ "[]"]) (auto simp: emit_def)
  qed
qed


lemma trace_report:
  "trace (report epoch total w) = trace w @
     [Printed (Epoch_line (epoch + 1)), Printed (Loss_line total), Printed Blank_line]"
  by (simp add: report_def emit_def)

lemma epochs_loop_record:
  assumes "epochs_loop b gen (optimization_step sess trn cel ii cl kp lr) es w = r"
  shows "\<exists>stepss rest.
      trace (final r) = trace w @ concat (map2 (epoch_record b) es stepss) @ rest \<and>
      list_all (list_all (ok_step trn cel ii cl kp lr)) stepss \<and>
      (case r of
         Returned u w' \<Rightarrow> length stepss = length es \<and> rest = []
       | Raised e w' \<Rightarrow> length stepss < length es \<and>
           (\<exists>steps. list_all (ok_step trn cel ii cl kp lr) steps \<and>
              (rest = Get_batches b # steps \<or>
               (\<exists>X y. rest = Get_batches b # steps @
                  [Sess_run (train_fetches cel trn) (train_feed ii cl kp lr X y) (Inl e)]))))"
  using assms
proof (induction es arbitrary: w r)
  case Nil
  then show ?case
    by (intro exI [of _ "[]"]) auto
next
  case (Cons epoch es)
  let ?step = "optimization_step sess trn cel ii cl kp lr"
  obtain batches failure g' where g: "gen b (outside w) = ((batches, failure), g')"
    by (metis prod.exhaust)
  let ?w1 = "emit (Get_batches b) (w\<lparr>outside := g'\<rparr>)"
  obtain r1 where r1: "batches_loop ?step batches 0 ?w1 = r1"
    by simp
  from batches_loop_record [OF r1] obtain steps where
    ok: "list_all (ok_step trn cel ii cl kp lr) steps" and
    cs: "(case r1 of
         Returned t' w' \<Rightarrow>
           trace w' = trace ?w1 @ steps \<and> t' = foldl (+) 0 (fetched steps) \<and> length steps = length batches
       | Raised e w' \<Rightarrow>
           (\<exists>X y. trace w' = trace ?w1 @ steps @
              [Sess_run (train_fetches cel trn) (train_feed ii cl kp lr X y) (Inl e)]) \<and>
           length steps < length batches)"
    by blast
  have tw1: "trace ?w1 = trace w @ [Get_batches b]"
    by (simp add: emit_def)
  show ?case
  proof (cases r1)
    case (Raised e w2)
    with Cons.prems g r1 have r: "r = Raised e w2"
      by simp
    from cs Raised obtain X y where
      "trace w2 = trace ?w1 @ steps @ [Sess_run (train_fetches cel trn) (train_feed ii cl kp lr X y) (Inl e)]"
      by auto
    then show ?thesis
      unfolding r using ok tw1
      by (intro exI [of _ "[]"] exI [of _ "Get_batches b # steps @
            [Sess_run (train_fetches cel trn) (train_feed ii cl kp lr X y) (Inl e)]"]) auto
  next
    case (Returned t w2)
    with cs have tr: "trace w2 = trace ?w1 @ steps" and t: "t = foldl (+) 0 (fetched steps)"
      by auto
    show ?thesis
    proof (cases failure)
      case (Some e)
      with Cons.prems g r1 Returned have r: "r = Raised e w2"
        by simp
      show ?thesis
        unfolding r using ok tw1 tr
        by (intro exI [of _ "[]"] exI [of _ "Get_batches b # steps"]) auto
    next
      case None
      with Cons.prems g r1 Returned
      have r: "epochs_loop b gen ?step es (report epoch t w2) = r"
        by simp
      from Cons.IH [OF r] obtain stepss rest where
        ih: "trace (final r) = trace (report epoch t w2) @ concat (map2 (epoch_record b) es stepss) @ rest"
          "list_all (list_all (ok_step trn cel ii cl kp lr)) stepss"
          "(case r of
             Returned u w' \<Rightarrow> length stepss = length es \<and> rest = []
           | Raised e w' \<Rightarrow> length stepss < length es \<and>
               (\<exists>steps. list_all (ok_step trn cel ii cl kp lr) steps \<and>
                  (rest = Get_batches b # steps \<or>
                   (\<exists>X y. rest = Get_batches b # steps @
                      [Sess_run (train_fetches cel trn) (train_feed ii cl kp lr X y) (Inl e)]))))"
        by blast
      have "trace (report epoch t w2) = trace w @ epoch_record b epoch steps"
        unfolding t epoch_record_def report_def emit_def using tr tw1 by simp
      with ih ok show ?thesis
        by (intro exI [of _ "steps # stepss"] exI [of _ rest])
           (auto split: outcome.splits)
    qed
  qed
qed


lemma added_append: "trace w' = trace w @ new \<Longrightarrow> added w w' = new"
  by (simp add: added_def)

lemma trace_added: "trace w' = trace w @ new \<Longrightarrow> trace w' = trace w @ added w w'"
  by (simp add: added_def)

lemma length_range_py: "length (range_py n) = nat n"
  by (simp add: range_py_def)

lemma train_nn_record:
  assumes "train_nn sess epochs b gen trn cel ii cl kp lr w = r"
  shows "\<exists>stepss rest.
      trace (final r) = trace w @ concat (map2 (epoch_record b) (range_py epochs) stepss) @ rest \<and>
      list_all (list_all (ok_step trn cel ii cl kp lr)) stepss \<and>
      (case r of
         Returned u w' \<Rightarrow> length stepss = nat epochs \<and> rest = []
       | Raised e w' \<Rightarrow> length stepss < nat epochs \<and>
           (\<exists>steps. list_all (ok_step trn cel ii cl kp lr) steps \<and>
              (rest = Get_batches b # steps \<or>
               (\<exists>X y. rest = Get_batches b # steps @
                  [Sess_run (train_fetches cel trn) (train_feed ii cl kp lr X y) (Inl e)]))))"
  using epochs_loop_record [OF assms [unfolded train_nn_def]]
  unfolding length_range_py .


lemma ok_step_kinds:
  assumes "ok_step trn cel ii cl kp lr ev"
  shows "is_sess_run ev" "\<not> is_failed_step ev" "\<not> is_get_batches ev" "\<not> is_loss_line ev"
  using assms by (auto simp: ok_step_def)

lemma ok_steps_kinds:
  assumes "list_all (ok_step trn cel ii cl kp lr) steps"
  shows "\<not> list_ex is_failed_step steps" "filter is_get_batches steps = []"
    "filter is_loss_line steps = []"
  using assms by (induction steps) (auto dest: ok_step_kinds)

lemma epoch_records_no_failure:
  assumes "list_all (list_all (ok_step trn cel ii cl kp lr)) stepss"
  shows "\<not> list_ex is_failed_step (concat (map2 (epoch_record b) es stepss))"
  using assms
proof (induction stepss arbitrary: es)
  case Nil
  then show ?case by simp
next
  case (Cons steps stepss)
  show ?case
  proof (cases es)
    case Nil
    then show ?thesis by simp
  next
    case (Cons epoch es')
    with Cons.IH [of es'] Cons.prems ok_steps_kinds(1) [of trn cel ii cl kp lr steps]
    show ?thesis
      by (auto simp: epoch_record_def)
  qed
qed

lemma epoch_records_get_batches:
  assumes "list_all (list_all (ok_step trn cel ii cl kp lr)) stepss"
  shows "length (filter is_get_batches (concat (map2 (epoch_record b) es stepss)))
           = min (length es) (length stepss)"
  using assms
proof (induction stepss arbitrary: es)
  case Nil
  then show ?case by simp
next
  case (Cons steps stepss)
  show ?case
  proof (cases es)
    case Nil
    then show ?thesis by simp
  next
    case (Cons epoch es')
    with Cons.IH [of es'] Cons.prems ok_steps_kinds(2) [of trn cel ii cl kp lr steps]
    show ?thesis
      by (simp add: epoch_record_def)
  qed
qed

lemma epoch_records_loss_lines:
  assumes "list_all (list_all (ok_step trn cel ii cl kp lr)) stepss"
  shows "length (filter is_loss_line (concat (map2 (epoch_record b) es stepss)))
           = min (length es) (length stepss)"
  using assms
proof (induction stepss arbitrary: es)
  case Nil
  then show ?case by simp
next
  case (Cons steps stepss)
  show ?case
  proof (cases es)
    case Nil
    then show ?thesis by simp
  next
    case (Cons epoch es')
    with Cons.IH [of es'] Cons.prems ok_steps_kinds(3) [of trn cel ii cl kp lr steps]
    show ?thesis
      by (simp add: epoch_record_def)
  qed
qed

lemma list_ex_member: "x \<in> set xs \<Longrightarrow> P x \<Longrightarrow> list_ex P xs"
  by (auto simp: list_ex_iff)

lemma train_nn_failed_step:
  assumes run: "train_nn sess epochs batch_size get_batches_fn trn cel ii cl kp lr w = r"
    and bad: "Sess_run f fd (Inl e) \<in> set (added w (final r))"
  shows "(\<exists>w'. r = Raised e w') \<and>
     (\<exists>before. added w (final r) = before @ [Sess_run f fd (Inl e)] \<and>
        \<not> list_ex is_failed_step before)"
proof -
  let ?ok = "ok_step trn cel ii cl kp lr"
  from train_nn_record [OF run] obtain stepss rest where
    tr: "trace (final r) = trace w @
          concat (map2 (epoch_record batch_size) (range_py epochs) stepss) @ rest"
    and oks: "list_all (list_all ?ok) stepss"
    and cs: "(case r of
         Returned u w' \<Rightarrow> length stepss = nat epochs \<and> rest = []
       | Raised e w' \<Rightarrow> length stepss < nat epochs \<and>
           (\<exists>steps. list_all ?ok steps \<and>
              (rest = Get_batches batch_size # steps \<or>
               (\<exists>X y. rest = Get_batches batch_size # steps @
                  [Sess_run (train_fetches cel trn) (train_feed ii cl kp lr X y) (Inl e)]))))"
    by blast
  let ?E = "concat (map2 (epoch_record batch_size) (range_py epochs) stepss)"
  have new: "added w (final r) = ?E @ rest"
    using tr by (simp add: added_def)
  have noE: "\<not> list_ex is_failed_step ?E"
    by (rule epoch_records_no_failure [OF oks])
  have isf: "is_failed_step (Sess_run f fd (Inl e))"
    by simp
  have notE: "Sess_run f fd (Inl e) \<notin> set ?E"
    using noE list_ex_member [where P = is_failed_step and x = "Sess_run f fd (Inl e)"] isf by blast
  from bad have "Sess_run f fd (Inl e) \<in> set ?E \<union> set rest"
    unfolding new set_append .
  with notE have inrest: "Sess_run f fd (Inl e) \<in> set rest"
    by blast
  then obtain e' w' where r: "r = Raised e' w'"
    using cs by (cases r) auto
  with cs obtain steps where
    st: "list_all ?ok steps" and
    alt: "rest = Get_batches batch_size # steps \<or>
       (\<exists>X y. rest = Get_batches batch_size # steps @
           [Sess_run (train_fetches cel trn) (train_feed ii cl kp lr X y) (Inl e')])"
    by auto
  have nost: "Sess_run f fd (Inl e) \<notin> set steps"
    using ok_steps_kinds(1) [OF st] list_ex_member [where P = is_failed_step and x = "Sess_run f fd (Inl e)"] isf by blast
  from alt inrest nost obtain X y where
    rest: "rest = Get_batches batch_size # steps @
           [Sess_run (train_fetches cel trn) (train_feed ii cl kp lr X y) (Inl e')]"
    and same: "Sess_run f fd (Inl e) =
           Sess_run (train_fetches cel trn) (train_feed ii cl kp lr X y) (Inl e')"
    by auto
  have "added w (final r) = (?E @ Get_batches batch_size # steps) @ [Sess_run f fd (Inl e)]"
    using new rest same by simp
  moreover have "\<not> list_ex is_failed_step (?E @ Get_batches batch_size # steps)"
    using noE ok_steps_kinds(1) [OF st] by simp
  ultimately show ?thesis
    using r same by blast
qed


lemma path_join_data [simp]:
  "path_join ''./data'' ''vgg'' = ''./data/vgg''"
  "path_join ''./data'' ''data_road/training'' = ''./data/data_road/training''"
  by (simp_all add: path_join_def)

lemma added_emit [simp]:
  "added w (emit ev w') = added w w' @ [ev]" if "length (trace w) \<le> length (trace w')"
  using that by (simp add: added_def emit_def)

lemma run_training_cases:
  "(\<exists>e w1. run_training c w = Raised e w1 \<and>
      trace w1 \<in> {trace w @ take 1 setup_record, trace w @ take 2 setup_record,
        trace w @ take 3 setup_record, trace w @ take 4 setup_record,
        trace w @ take 5 setup_record, trace w @ setup_record}) \<or>
   (\<exists>w1 img_input keep_prob logits trn cel.
      trace w1 = trace w @ setup_record \<and>
      run_training c w =
        call (train_nn (session_run c) NUM_EPOCHS BATCH_SIZE
                (gen_batch_function c ''./data/data_road/training'' (160, 576))
                trn cel img_input ''correct_label'' keep_prob ''learning_rate'')
          (\<lambda>_. Returned (logits, keep_prob, img_input)) w1)"
proof (cases "\<exists>g s1 img_input keep_prob layer3 layer4 layer7 model_out s2 logits trn cel s3 s4.
    test_for_kitti_dataset c ''./data'' (outside w) = None \<and>
    maybe_download_pretrained_vgg c ''./data'' (outside w) = Inr g \<and>
    loader_load c [''vgg16''] ''./data/vgg'' g (session w) = Inr s1 \<and>
    get_tensor_by_name c ''image_input:0'' s1 = Inr img_input \<and>
    get_tensor_by_name c ''keep_prob:0'' s1 = Inr keep_prob \<and>
    get_tensor_by_name c ''layer3_out:0'' s1 = Inr layer3 \<and>
    get_tensor_by_name c ''layer4_out:0'' s1 = Inr layer4 \<and>
    get_tensor_by_name c ''layer7_out:0'' s1 = Inr layer7 \<and>
    graph_layers c layer3 layer4 layer7 2 s1 = Inr (model_out, s2) \<and>
    graph_optimize c model_out ''correct_label'' ''learning_rate'' 2 s2 = Inr ((logits, trn, cel), s3) \<and>
    global_variables_initializer c s3 = Inr s4")
  case True
  then obtain g s1 img_input keep_prob layer3 layer4 layer7 model_out s2 logits trn cel s3 s4 where
    ok: "test_for_kitti_dataset c ''./data'' (outside w) = None"
    "maybe_download_pretrained_vgg c ''./data'' (outside w) = Inr g"
    "loader_load c [''vgg16''] ''./data/vgg'' g (session w) = Inr s1"
    "get_tensor_by_name c ''image_input:0'' s1 = Inr img_input"
    "get_tensor_by_name c ''keep_prob:0'' s1 = Inr keep_prob"
    "get_tensor_by_name c ''layer3_out:0'' s1 = Inr layer3"
    "get_tensor_by_name c ''layer4_out:0'' s1 = Inr layer4"
    "get_tensor_by_name c ''layer7_out:0'' s1 = Inr layer7"
    "graph_layers c layer3 layer4 layer7 2 s1 = Inr (model_out, s2)"
    "graph_optimize c model_out ''correct_label'' ''learning_rate'' 2 s2 = Inr ((logits, trn, cel), s3)"
    "global_variables_initializer c s3 = Inr s4"
    by blast
  let ?w1 = "w\<lparr>outside := g, trace := trace w @ setup_record, session := s4\<rparr>"
  have "run_training c w =
        call (train_nn (session_run c) NUM_EPOCHS BATCH_SIZE
                (gen_batch_function c ''./data/data_road/training'' (160, 576))
                trn cel img_input ''correct_label'' keep_prob ''learning_rate'')
          (\<lambda>_. Returned (logits, keep_prob, img_input)) ?w1"
    unfolding run_training_def load_vgg_def
    by (simp add: Let_def call_def check_dataset_def download_vgg_def saved_model_load_def
        tensor_by_name_def build_layers_def build_optimizer_def init_variables_def
        setup_record_def emit_def ok)
  moreover have "trace ?w1 = trace w @ setup_record"
    by simp
  ultimately show ?thesis
    by blast
next
  case False
  then show ?thesis
    unfolding run_training_def load_vgg_def
    by (auto simp: Let_def call_def check_dataset_def download_vgg_def saved_model_load_def
        tensor_by_name_def build_layers_def build_optimizer_def init_variables_def
        setup_record_def emit_def
      split: option.splits sum.splits prod.splits)
qed


lemma inference_loop_record:
  "\<exists>inf. trace (final (inference_loop c out lg kp ip imgs w)) = trace w @ inf \<and>
     list_all is_inference inf \<and>
     session (final (inference_loop c out lg kp ip imgs w)) = session w"
proof (induction imgs arbitrary: w)
  case Nil
  then show ?case by simp
next
  case (Cons p imgs)
  obtain name img where p: "p = (name, img)" by (cases p)
  show ?case
  proof (cases "evaluate c lg kp ip img (session w)")
    case (Inl e)
    then show ?thesis
      using p by (intro exI [of _ "[Forward_pass lg img]"]) (simp add: emit_def)
  next
    case (Inr scores)
    let ?comp = "overlay c img scores"
    show ?thesis
    proof (cases "write_file c out name ?comp (outside w)")
      case (Inl e)
      then show ?thesis
        using p Inr
        by (intro exI [of _ "[Forward_pass lg img, Write_output name ?comp]"])
           (simp add: emit_def)
    next
      case (Inr g')
      let ?w2 = "(emit (Write_output name ?comp) (emit (Forward_pass lg img) w))\<lparr>outside := g'\<rparr>"
      from Cons.IH [of ?w2] obtain inf where
        ih: "trace (final (inference_loop c out lg kp ip imgs ?w2)) = trace ?w2 @ inf"
        "list_all is_inference inf"
        "session (final (inference_loop c out lg kp ip imgs ?w2)) = session ?w2"
        by blast
      have eq: "inference_loop c out lg kp ip (p # imgs) w = inference_loop c out lg kp ip imgs ?w2"
        using p \<open>evaluate c lg kp ip img (session w) = Inr scores\<close> Inr by (simp add: Let_def)
      show ?thesis
        unfolding eq using ih
        by (intro exI [of _ "Forward_pass lg img # Write_output name ?comp # inf"])
           (simp add: emit_def)
    qed
  qed
qed

lemma train_nn_extends:
  "\<exists>tr. trace (final (train_nn sess epochs b gen trn cel ii cl kp lr w)) = trace w @ tr"
  using train_nn_record [OF refl, of sess epochs b gen trn cel ii cl kp lr w] by blast

lemma run_cases:
  "(\<exists>e w1. run c w = Raised e w1 \<and>
      trace w1 \<in> {trace w @ take 1 setup_record, trace w @ take 2 setup_record,
        trace w @ take 3 setup_record, trace w @ take 4 setup_record,
        trace w @ take 5 setup_record, trace w @ setup_record}) \<or>
   (\<exists>w1 img_input keep_prob logits trn cel r inf.
      trace w1 = trace w @ setup_record \<and>
      r = train_nn (session_run c) NUM_EPOCHS BATCH_SIZE
            (gen_batch_function c ''./data/data_road/training'' (160, 576))
            trn cel img_input ''correct_label'' keep_prob ''learning_rate'' w1 \<and>
      trace (final (run c w)) = trace (final r) @ inf \<and> list_all is_inference inf \<and>
      session (final (run c w)) = session (final r) \<and>
      (case r of
         Raised e w2 \<Rightarrow> run c w = Raised e w2 \<and> inf = []
       | Returned u w2 \<Rightarrow> run_training c w = Returned (logits, keep_prob, img_input) w2))"
proof -
  from run_training_cases [of c w]
  consider (halted) e w1 where "run_training c w = Raised e w1"
      "trace w1 \<in> {trace w @ take 1 setup_record, trace w @ take 2 setup_record,
        trace w @ take 3 setup_record, trace w @ take 4 setup_record,
        trace w @ take 5 setup_record, trace w @ setup_record}"
    | (built) w1 img_input keep_prob logits trn cel where
      "trace w1 = trace w @ setup_record"
      "run_training c w =
        call (train_nn (session_run c) NUM_EPOCHS BATCH_SIZE
                (gen_batch_function c ''./data/data_road/training'' (160, 576))
                trn cel img_input ''correct_label'' keep_prob ''learning_rate'')
          (\<lambda>_. Returned (logits, keep_prob, img_input)) w1"
    by blast
  then show ?thesis
  proof cases
    case halted
    then have "run c w = Raised e w1"
      by (simp add: run_def call_def)
    with halted(2) show ?thesis
      by blast
  next
    case built
    let ?r = "train_nn (session_run c) NUM_EPOCHS BATCH_SIZE
            (gen_batch_function c ''./data/data_road/training'' (160, 576))
            trn cel img_input ''correct_label'' keep_prob ''learning_rate'' w1"
    show ?thesis
    proof (cases ?r)
      case (Raised e w2)
      with built(2) have "run c w = Raised e w2"
        by (simp add: run_def call_def)
      with Raised built(1) show ?thesis
        by (intro disjI2 exI [of _ w1] exI [of _ img_input] exI [of _ keep_prob]
              exI [of _ logits] exI [of _ trn] exI [of _ cel] exI [of _ ?r] exI [of _ "[]"])
           simp
    next
      case (Returned u w2)
      with built(2) have rt: "run_training c w = Returned (logits, keep_prob, img_input) w2"
        by (simp add: call_def)
      then have run: "run c w =
          inference_loop c (output_dir c ''./runs'' (outside w2)) logits keep_prob img_input
            (test_images c ''./data'' (160, 576) (outside w2)) w2"
        by (simp add: run_def call_def save_inference_samples_def)
      from inference_loop_record [of c "output_dir c ''./runs'' (outside w2)" logits keep_prob
          img_input "test_images c ''./data'' (160, 576) (outside w2)" w2]
      obtain inf where
        "trace (final (run c w)) = trace w2 @ inf" "list_all is_inference inf"
        "session (final (run c w)) = session w2"
        unfolding run by blast
      with Returned built(1) rt show ?thesis
        by (intro disjI2 exI [of _ w1] exI [of _ img_input] exI [of _ keep_prob]
              exI [of _ logits] exI [of _ trn] exI [of _ cel] exI [of _ ?r] exI [of _ inf])
           simp
    qed
  qed
qed

lemma in_epoch_records:
  assumes "ev \<in> set (concat (map2 (epoch_record b) es stepss))"
  shows "\<exists>epoch steps. steps \<in> set stepss \<and> ev \<in> set (epoch_record b epoch steps)"
  using assms by (auto dest: set_zip_rightD)

lemma train_nn_events:
  assumes "ev \<in> set (added w (final (train_nn sess epochs b gen trn cel ii cl kp lr w)))"
  shows "ev = Get_batches b \<or>
     (\<exists>X y r. ev = Sess_run (train_fetches cel trn) (train_feed ii cl kp lr X y) r) \<or>
     (\<exists>l. ev = Printed l)"
proof -
  let ?r = "train_nn sess epochs b gen trn cel ii cl kp lr w"
  let ?ok = "ok_step trn cel ii cl kp lr"
  from train_nn_record [OF refl, of sess epochs b gen trn cel ii cl kp lr w]
  obtain stepss rest where
    tr: "trace (final ?r) = trace w @ concat (map2 (epoch_record b) (range_py epochs) stepss) @ rest"
    and oks: "list_all (list_all ?ok) stepss"
    and cs: "(case ?r of
         Returned u w' \<Rightarrow> length stepss = nat epochs \<and> rest = []
       | Raised e w' \<Rightarrow> length stepss < nat epochs \<and>
           (\<exists>steps. list_all ?ok steps \<and>
              (rest = Get_batches b # steps \<or>
               (\<exists>X y. rest = Get_batches b # steps @
                  [Sess_run (train_fetches cel trn) (train_feed ii cl kp lr X y) (Inl e)]))))"
    by blast
  let ?E = "concat (map2 (epoch_record b) (range_py epochs) stepss)"
  have new: "added w (final ?r) = ?E @ rest"
    using tr by (simp add: added_def)
  from assms have "ev \<in> set ?E \<or> ev \<in> set rest"
    unfolding new by simp
  then show ?thesis
  proof
    assume "ev \<in> set ?E"
    from in_epoch_records [OF this] obtain epoch steps where
      st: "steps \<in> set stepss" and ev: "ev \<in> set (epoch_record b epoch steps)"
      by blast
    from st oks have "list_all ?ok steps"
      by (simp add: list_all_iff)
    then have "\<forall>x\<in>set steps. \<exists>X y r.
        x = Sess_run (train_fetches cel trn) (train_feed ii cl kp lr X y) r"
      unfolding list_all_iff ok_step_def by blast
    with ev show ?thesis
      unfolding epoch_record_def by auto
  next
    assume inrest: "ev \<in> set rest"
    then obtain e w' where r: "?r = Raised e w'"
      using cs by (cases ?r) auto
    with cs obtain steps where
      st: "list_all ?ok steps" and
      alt: "rest = Get_batches b # steps \<or>
        (\<exists>X y. rest = Get_batches b # steps @
           [Sess_run (train_fetches cel trn) (train_feed ii cl kp lr X y) (Inl e)])"
      by auto
    from st have "\<forall>x\<in>set steps. \<exists>X y r.
        x = Sess_run (train_fetches cel trn) (train_feed ii cl kp lr X y) r"
      unfolding list_all_iff ok_step_def by blast
    with alt inrest show ?thesis
      by (elim disjE exE) (simp_all, blast+)
  qed
qed

lemma train_nn_get_batches_count:
  "length (filter is_get_batches
      (added w (final (train_nn sess epochs b gen trn cel ii cl kp lr w)))) \<le> nat epochs"
proof -
  let ?r = "train_nn sess epochs b gen trn cel ii cl kp lr w"
  let ?ok = "ok_step trn cel ii cl kp lr"
  from train_nn_record [OF refl, of sess epochs b gen trn cel ii cl kp lr w]
  obtain stepss rest where
    tr: "trace (final ?r) = trace w @ concat (map2 (epoch_record b) (range_py epochs) stepss) @ rest"
    and oks: "list_all (list_all ?ok) stepss"
    and cs: "(case ?r of
         Returned u w' \<Rightarrow> length stepss = nat epochs \<and> rest = []
       | Raised e w' \<Rightarrow> length stepss < nat epochs \<and>
           (\<exists>steps. list_all ?ok steps \<and>
              (rest = Get_batches b # steps \<or>
               (\<exists>X y. rest = Get_batches b # steps @
                  [Sess_run (train_fetches cel trn) (train_feed ii cl kp lr X y) (Inl e)]))))"
    by blast
  let ?E = "concat (map2 (epoch_record b) (range_py epochs) stepss)"
  have new: "added w (final ?r) = ?E @ rest"
    using tr by (simp add: added_def)
  have cE: "length (filter is_get_batches ?E) = min (nat epochs) (length stepss)"
    using epoch_records_get_batches [OF oks, of b "range_py epochs"]
    by (simp add: length_range_py)
  show ?thesis
  proof (cases ?r)
    case (Returned u w')
    with cs cE show ?thesis
      unfolding new by simp
  next
    case (Raised e w')
    with cs obtain steps where
      lt: "length stepss < nat epochs" and
      st: "list_all ?ok steps" and
      alt: "rest = Get_batches b # steps \<or>
        (\<exists>X y. rest = Get_batches b # steps @
           [Sess_run (train_fetches cel trn) (train_feed ii cl kp lr X y) (Inl e)])"
      by auto
    from alt ok_steps_kinds(2) [OF st] have "length (filter is_get_batches rest) = 1"
      by auto
    with cE lt show ?thesis
      unfolding new by simp
  qed
qed

lemma setup_record_kinds:
  assumes "ev \<in> set (take n setup_record)"
  shows "\<not> is_sess_run ev" "\<not> is_get_batches ev" "\<not> is_failed_step ev" "\<not> is_inference ev"
    "\<not> is_loss_line ev"
  using set_take_subset [of n setup_record] assms
  by (auto simp: setup_record_def)

lemma inference_kinds:
  assumes "list_all is_inference evs" "ev \<in> set evs"
  shows "\<not> is_sess_run ev" "\<not> is_get_batches ev" "\<not> is_failed_step ev"
proof -
  from assms have "is_inference ev"
    by (simp add: list_all_iff)
  then show "\<not> is_sess_run ev" "\<not> is_get_batches ev" "\<not> is_failed_step ev"
    by (cases ev; simp)+
qed

lemma run_record:
  "(\<exists>e w1 n. run c w = Raised e w1 \<and> added w w1 = take n setup_record \<and> 0 < n) \<or>
   (\<exists>w1 img_input keep_prob logits trn cel r inf.
      r = train_nn (session_run c) NUM_EPOCHS BATCH_SIZE
            (gen_batch_function c ''./data/data_road/training'' (160, 576))
            trn cel img_input ''correct_label'' keep_prob ''learning_rate'' w1 \<and>
      added w (final (run c w)) = setup_record @ added w1 (final r) @ inf \<and>
      list_all is_inference inf \<and>
      session (final (run c w)) = session (final r) \<and>
      (case r of
         Raised e w2 \<Rightarrow> run c w = Raised e w2 \<and> inf = []
       | Returned u w2 \<Rightarrow> run_training c w = Returned (logits, keep_prob, img_input) w2))"
proof -
  from run_cases [of c w]
  consider (halted) e w1 where "run c w = Raised e w1"
      "trace w1 \<in> {trace w @ take 1 setup_record, trace w @ take 2 setup_record,
        trace w @ take 3 setup_record, trace w @ take 4 setup_record,
        trace w @ take 5 setup_record, trace w @ setup_record}"
    | (built) w1 img_input keep_prob logits trn cel r inf where
      "trace w1 = trace w @ setup_record"
      "r = train_nn (session_run c) NUM_EPOCHS BATCH_SIZE
            (gen_batch_function c ''./data/data_road/training'' (160, 576))
            trn cel img_input ''correct_label'' keep_prob ''learning_rate'' w1"
      "trace (final (run c w)) = trace (final r) @ inf" "list_all is_inference inf"
      "session (final (run c w)) = session (final r)"
      "(case r of
         Raised e w2 \<Rightarrow> run c w = Raised e w2 \<and> inf = []
       | Returned u w2 \<Rightarrow> run_training c w = Returned (logits, keep_prob, img_input) w2)"
    by blast
  then show ?thesis
  proof cases
    case halted
    from halted(2) have "\<exists>n. added w w1 = take n setup_record \<and> 0 < n"
    proof (elim insertE emptyE)
      assume "trace w1 = trace w @ setup_record"
      then have "added w w1 = take 6 setup_record \<and> (0::nat) < 6"
        by (simp add: added_def setup_record_def)
      then show ?thesis by blast
    qed (rule exI, rule conjI, rule added_append, assumption, simp)+
    with halted(1) show ?thesis
      by blast
  next
    case built
    from train_nn_extends obtain tr where tr: "trace (final r) = trace w1 @ tr"
      unfolding built(2) by blast
    have "added w1 (final r) = tr"
      using tr by (rule added_append)
    moreover have "added w (final (run c w)) = setup_record @ tr @ inf"
      using built(1,3) tr by (simp add: added_def)
    ultimately show ?thesis
      using built(2,4,5,6) by blast
  qed
qed

lemma toy_two_epochs:
  "train_nn toy_sess 2 2 toy_batches ''op'' ''loss'' ''x'' ''y'' ''kp'' ''lr'' toy_world =
     Returned ()
      \<lparr>session = 4, outside = 2,
       trace =
        [Get_batches 2,
         Sess_run [''loss'', ''op''] (train_feed ''x'' ''y'' ''kp'' ''lr'' 0 10) (Inr 1),
         Sess_run [''loss'', ''op''] (train_feed ''x'' ''y'' ''kp'' ''lr'' 1 11) (Inr 2),
         Printed (Epoch_line 1), Printed (Loss_line 3), Printed Blank_line,
         Get_batches 2,
         Sess_run [''loss'', ''op''] (train_feed ''x'' ''y'' ''kp'' ''lr'' 0 10) (Inr 3),
         Sess_run [''loss'', ''op''] (train_feed ''x'' ''y'' ''kp'' ''lr'' 1 11) (Inr 4),
         Printed (Epoch_line 2), Printed (Loss_line 7), Printed Blank_line]\<rparr>"
  by (simp add: train_nn_def range_py_def upto.simps toy_batches_def toy_world_def toy_sess_def
        optimization_step_def Let_def emit_def report_def train_fetches_def)

lemma filter_none: "(\<And>x. x \<in> set xs \<Longrightarrow> \<not> P x) \<Longrightarrow> filter P xs = []"
  by (induction xs) auto

lemma run_loop_events:
  assumes ev: "ev \<in> set (added w (final (run c w)))"
    and kind: "is_sess_run ev \<or> is_get_batches ev"
  shows "\<exists>w1 img_input keep_prob trn cel.
     ev \<in> set (added w1 (final (train_nn (session_run c) NUM_EPOCHS BATCH_SIZE
            (gen_batch_function c ''./data/data_road/training'' (160, 576))
            trn cel img_input ''correct_label'' keep_prob ''learning_rate'' w1)))"
proof -
  from run_record [of c w]
  consider (halted) e w1 n where "run c w = Raised e w1" "added w w1 = take n setup_record"
    | (built) w1 img_input keep_prob trn cel r evs where
      "r = train_nn (session_run c) NUM_EPOCHS BATCH_SIZE
            (gen_batch_function c ''./data/data_road/training'' (160, 576))
            trn cel img_input ''correct_label'' keep_prob ''learning_rate'' w1"
      "added w (final (run c w)) = setup_record @ added w1 (final r) @ evs"
      "list_all is_inference evs"
    by blast
  then show ?thesis
  proof cases
    case halted
    with ev have "ev \<in> set (take n setup_record)"
      by simp
    from setup_record_kinds(1,2) [OF this] kind show ?thesis
      by blast
  next
    case built
    from ev built(2) have "ev \<in> set (take 6 setup_record) \<or> ev \<in> set (added w1 (final r)) \<or> ev \<in> set evs"
      by (auto simp: setup_record_def)
    with kind setup_record_kinds(1,2) [of ev 6] inference_kinds(1,2) [OF built(3), of ev]
    have "ev \<in> set (added w1 (final r))"
      by blast
    then show ?thesis
      unfolding built(1) by blast
  qed
qed

lemma run_get_batches_count:
  "length (filter is_get_batches (added w (final (run c w)))) \<le> nat NUM_EPOCHS"
proof -
  from run_record [of c w]
  consider (halted) e w1 n where "run c w = Raised e w1" "added w w1 = take n setup_record"
    | (built) w1 img_input keep_prob trn cel r evs where
      "r = train_nn (session_run c) NUM_EPOCHS BATCH_SIZE
            (gen_batch_function c ''./data/data_road/training'' (160, 576))
            trn cel img_input ''correct_label'' keep_prob ''learning_rate'' w1"
      "added w (final (run c w)) = setup_record @ added w1 (final r) @ evs"
      "list_all is_inference evs"
    by blast
  then show ?thesis
  proof cases
    case halted
    have z: "filter is_get_batches (take n setup_record) = []"
      by (rule filter_none) (rule setup_record_kinds(2))
    have "added w (final (run c w)) = take n setup_record"
      using halted by simp
    then show ?thesis
      by (simp only: z list.size)
  next
    case built
    have a: "filter is_get_batches setup_record = []"
      by (simp add: setup_record_def)
    have b: "filter is_get_batches evs = []"
      by (rule filter_none) (rule inference_kinds(2) [OF built(3)])
    show ?thesis
      unfolding built(2) built(1) filter_append length_append a b
      using train_nn_get_batches_count [of w1 "session_run c" NUM_EPOCHS BATCH_SIZE
          "gen_batch_function c ''./data/data_road/training'' (160, 576)"
          trn cel img_input "''correct_label''" keep_prob "''learning_rate''"]
      by (simp only: list.size add_0 add_0_right)
  qed
qed

lemma toy_three_epochs:
  "train_nn toy_sess 3 2 toy_batches ''op'' ''loss'' ''x'' ''y'' ''kp'' ''lr'' toy_world =
   Raised (Exn ''InvalidArgumentError'' ''Incompatible shapes'')
    \<lparr>session = 5, outside = 3,
     trace =
       [Get_batches 2,
        Sess_run [''loss'', ''op''] (train_feed ''x'' ''y'' ''kp'' ''lr'' 0 10) (Inr 1),
        Sess_run [''loss'', ''op''] (train_feed ''x'' ''y'' ''kp'' ''lr'' 1 11) (Inr 2),
        Printed (Epoch_line 1), Printed (Loss_line 3), Printed Blank_line,
        Get_batches 2,
        Sess_run [''loss'', ''op''] (train_feed ''x'' ''y'' ''kp'' ''lr'' 0 10) (Inr 3),
        Sess_run [''loss'', ''op''] (train_feed ''x'' ''y'' ''kp'' ''lr'' 1 11) (Inr 4),
        Printed (Epoch_line 2), Printed (Loss_line 7), Printed Blank_line,
        Get_batches 2,
        Sess_run [''loss'', ''op''] (train_feed ''x'' ''y'' ''kp'' ''lr'' 0 10) (Inr 5),
        Sess_run [''loss'', ''op''] (train_feed ''x'' ''y'' ''kp'' ''lr'' 1 11)
          (Inl (Exn ''InvalidArgumentError'' ''Incompatible shapes''))]\<rparr>"
  by (simp add: train_nn_def range_py_def upto.simps toy_batches_def toy_world_def toy_sess_def
        optimization_step_def Let_def emit_def report_def train_fetches_def)

lemma toy_train_50:
  "train_nn toy_sess NUM_EPOCHS BATCH_SIZE toy_batches ''fcn_train_op'' ''fcn_loss''
     ''image_input:0'' ''correct_label'' ''keep_prob:0'' ''learning_rate''
     \<lparr>session = 0, outside = 0, trace = setup_record\<rparr> =
   Raised (Exn ''InvalidArgumentError'' ''Incompatible shapes'')
    \<lparr>session = 5, outside = 3,
     trace = setup_record @
       [Get_batches 16,
        Sess_run [''fcn_loss'', ''fcn_train_op'']
          (train_feed ''image_input:0'' ''correct_label'' ''keep_prob:0'' ''learning_rate'' 0 10) (Inr 1),
        Sess_run [''fcn_loss'', ''fcn_train_op'']
          (train_feed ''image_input:0'' ''correct_label'' ''keep_prob:0'' ''learning_rate'' 1 11) (Inr 2),
        Printed (Epoch_line 1), Printed (Loss_line 3), Printed Blank_line,
        Get_batches 16,
        Sess_run [''fcn_loss'', ''fcn_train_op'']
          (train_feed ''image_input:0'' ''correct_label'' ''keep_prob:0'' ''learning_rate'' 0 10) (Inr 3),
        Sess_run [''fcn_loss'', ''fcn_train_op'']
          (train_feed ''image_input:0'' ''correct_label'' ''keep_prob:0'' ''learning_rate'' 1 11) (Inr 4),
        Printed (Epoch_line 2), Printed (Loss_line 7), Printed Blank_line,
        Get_batches 16,
        Sess_run [''fcn_loss'', ''fcn_train_op'']
          (train_feed ''image_input:0'' ''correct_label'' ''keep_prob:0'' ''learning_rate'' 0 10) (Inr 5),
        Sess_run [''fcn_loss'', ''fcn_train_op'']
          (train_feed ''image_input:0'' ''correct_label'' ''keep_prob:0'' ''learning_rate'' 1 11)
          (Inl (Exn ''InvalidArgumentError'' ''Incompatible shapes''))]\<rparr>"
proof -
  have three: "[0..NUM_EPOCHS - 1] = 0 # 1 # 2 # [3..49]"
    by (simp add: NUM_EPOCHS_def upto.simps)
  show ?thesis
    unfolding train_nn_def range_py_def three
    by (simp add: BATCH_SIZE_def toy_batches_def toy_sess_def
        optimization_step_def Let_def emit_def report_def train_fetches_def)
qed

lemma toy_run:
  "run toy_env toy_world =
   Raised (Exn ''InvalidArgumentError'' ''Incompatible shapes'')
    \<lparr>session = 5, outside = 3,
     trace = setup_record @
       [Get_batches 16,
        Sess_run [''fcn_loss'', ''fcn_train_op'']
          (train_feed ''image_input:0'' ''correct_label'' ''keep_prob:0'' ''learning_rate'' 0 10) (Inr 1),
        Sess_run [''fcn_loss'', ''fcn_train_op'']
          (train_feed ''image_input:0'' ''correct_label'' ''keep_prob:0'' ''learning_rate'' 1 11) (Inr 2),
        Printed (Epoch_line 1), Printed (Loss_line 3), Printed Blank_line,
        Get_batches 16,
        Sess_run [''fcn_loss'', ''fcn_train_op'']
          (train_feed ''image_input:0'' ''correct_label'' ''keep_prob:0'' ''learning_rate'' 0 10) (Inr 3),
        Sess_run [''fcn_loss'', ''fcn_train_op'']
          (train_feed ''image_input:0'' ''correct_label'' ''keep_prob:0'' ''learning_rate'' 1 11) (Inr 4),
        Printed (Epoch_line 2), Printed (Loss_line 7), Printed Blank_line,
        Get_batches 16,
        Sess_run [''fcn_loss'', ''fcn_train_op'']
          (train_feed ''image_input:0'' ''correct_label'' ''keep_prob:0'' ''learning_rate'' 0 10) (Inr 5),
        Sess_run [''fcn_loss'', ''fcn_train_op'']
          (train_feed ''image_input:0'' ''correct_label'' ''keep_prob:0'' ''learning_rate'' 1 11)
          (Inl (Exn ''InvalidArgumentError'' ''Incompatible shapes''))]\<rparr>"
proof -
  have "run_training toy_env toy_world =
      call (train_nn toy_sess NUM_EPOCHS BATCH_SIZE toy_batches ''fcn_train_op'' ''fcn_loss''
             ''image_input:0'' ''correct_label'' ''keep_prob:0'' ''learning_rate'')
        (\<lambda>_. Returned (''fcn_logits'', ''keep_prob:0'', ''image_input:0''))
        \<lparr>session = 0, outside = 0, trace = setup_record\<rparr>"
    unfolding run_training_def load_vgg_def
    by (simp add: Let_def call_def check_dataset_def download_vgg_def saved_model_load_def
        tensor_by_name_def build_layers_def build_optimizer_def init_variables_def
        setup_record_def emit_def toy_env_def toy_world_def)
  then show ?thesis
    by (simp add: run_def call_def toy_train_50)
qed

lemma run_check_fails:
  assumes "test_for_kitti_dataset c ''./data'' (outside w) = Some e"
  shows "run c w = Raised e (emit (Test_for_kitti_dataset ''./data'') w)"
  using assms
  by (simp add: run_def run_training_def call_def check_dataset_def Let_def)

lemma run_download_fails:
  assumes "test_for_kitti_dataset c ''./data'' (outside w) = None"
    and "maybe_download_pretrained_vgg c ''./data'' (outside w) = Inl e"
  shows "run c w = Raised e
     (emit (Maybe_download_pretrained_vgg ''./data'') (emit (Test_for_kitti_dataset ''./data'') w))"
  using assms
  by (simp add: run_def run_training_def call_def check_dataset_def download_vgg_def Let_def
        emit_def)

lemma batches_loop_returns:
  assumes "\<forall>f fd s. \<exists>l s'. sess f fd s = Inr (l, s')"
  shows "\<exists>t' w'. batches_loop (optimization_step sess trn cel ii cl kp lr) bs t w = Returned t' w'"
proof (induction bs arbitrary: t w)
  case Nil
  show ?case by simp
next
  case (Cons b bs)
  obtain X y where b: "b = (X, y)" by (cases b)
  from assms obtain l s' where
    "sess (train_fetches cel trn) (train_feed ii cl kp lr X y) (session w) = Inr (l, s')"
    by blast
  then show ?case
    using Cons.IH by (simp add: b optimization_step_def Let_def)
qed

lemma epochs_loop_returns:
  assumes sess: "\<forall>f fd s. \<exists>l s'. sess f fd s = Inr (l, s')"
    and gen: "\<forall>b g. snd (fst (gen b g)) = None"
  shows "\<exists>w'. epochs_loop b gen (optimization_step sess trn cel ii cl kp lr) es w = Returned () w'"
proof (induction es arbitrary: w)
  case Nil
  show ?case by simp
next
  case (Cons epoch es)
  obtain batches failure g' where g: "gen b (outside w) = ((batches, failure), g')"
    by (metis prod.exhaust)
  with gen have f: "failure = None"
    by (metis fst_conv snd_conv)
  from batches_loop_returns [OF sess] obtain t' w' where
    "batches_loop (optimization_step sess trn cel ii cl kp lr) batches 0
       (emit (Get_batches b) (w\<lparr>outside := g'\<rparr>)) = Returned t' w'"
    by blast
  then show ?case
    using Cons.IH g f by simp
qed

lemma train_nn_returns:
  assumes "\<forall>f fd s. \<exists>l s'. sess f fd s = Inr (l, s')"
    and "\<forall>b g. snd (fst (gen b g)) = None"
  shows "\<exists>w'. train_nn sess epochs b gen trn cel ii cl kp lr w = Returned () w'"
  unfolding train_nn_def by (rule epochs_loop_returns [OF assms])

lemma steady_run_training:
  "\<exists>w1. run_training steady_env toy_world =
      Returned (''fcn_logits'', ''keep_prob:0'', ''image_input:0'') w1"
proof -
  have "run_training steady_env toy_world =
      call (train_nn steady_sess NUM_EPOCHS BATCH_SIZE toy_batches ''fcn_train_op'' ''fcn_loss''
             ''image_input:0'' ''correct_label'' ''keep_prob:0'' ''learning_rate'')
        (\<lambda>_. Returned (''fcn_logits'', ''keep_prob:0'', ''image_input:0''))
        \<lparr>session = 0, outside = 0, trace = setup_record\<rparr>"
    unfolding run_training_def load_vgg_def
    by (simp add: Let_def call_def check_dataset_def download_vgg_def saved_model_load_def
        tensor_by_name_def build_layers_def build_optimizer_def init_variables_def
        setup_record_def emit_def toy_env_def steady_env_def toy_world_def)
  moreover have "\<exists>w'. train_nn steady_sess NUM_EPOCHS BATCH_SIZE toy_batches ''fcn_train_op''
      ''fcn_loss'' ''image_input:0'' ''correct_label'' ''keep_prob:0'' ''learning_rate''
      \<lparr>session = 0, outside = 0, trace = setup_record\<rparr> = Returned () w'"
    by (rule train_nn_returns) (simp_all add: steady_sess_def toy_batches_def)
  ultimately show ?thesis
    by (auto simp: call_def)
qed

lemma mset_shuffle: "mset (fst (shuffle xs rng)) = mset xs"
proof (induction xs arbitrary: rng)
  case Nil
  show ?case by simp
next
  case (Cons x xs)
  obtain ys rng1 where sh: "shuffle xs rng = (ys, rng1)"
    by (cases "shuffle xs rng")
  obtain r rng2 where dr: "draw rng1 = (r, rng2)"
    by (cases "draw rng1")
  from Cons.IH [of rng] sh have ys: "mset ys = mset xs"
    by simp
  have "mset (take i ys @ x # drop i ys) = add_mset x (mset ys)" for i
  proof -
    have "mset (take i ys) + mset (drop i ys) = mset (take i ys @ drop i ys)"
      by (simp only: mset_append)
    then have "mset (take i ys) + mset (drop i ys) = mset ys"
      by (simp only: append_take_drop_id)
    then show ?thesis
      by simp
  qed
  then show ?case
    by (simp add: sh dr ys Let_def)
qed

lemma concat_chunks: "0 < b \<Longrightarrow> concat (chunks b xs) = xs"
proof (induction b xs rule: chunks.induct)
  case (1 b xs)
  show ?case
  proof (cases "xs = []")
    case True
    then show ?thesis
      by (subst chunks.simps) simp
  next
    case False
    with "1.prems" "1.IH" have "concat (chunks b (drop b xs)) = drop b xs"
      by simp
    with False "1.prems" show ?thesis
      by (subst chunks.simps) simp
  qed
qed

lemma samples_of_batch: "samples_of (map fst c, map snd c) = c"
  by (simp add: samples_of_def zip_map_fst_snd)

lemma toy_batch_generator:
  "batch_generator [(1::nat, 10), (2, 20), (3, 30), (4, 40), (5, 50)] 2 [3, 0, 1, 7] =
     (([([1, 4], [10, 40]), ([3, 5], [30, 50]), ([2], [20])], None), [])"
  by (simp add: batch_generator_def Let_def chunks.simps)

lemma broadcast_rev_same: "broadcast_rev xs xs = Some xs"
  by (induction xs) auto

lemma tf_add_same: "tf_add x x = Inr x"
  by (simp add: tf_add_def broadcast_rev_same)

lemma fcn_layer9_shape:
  "fcn_layer9 [n4, h4, w4, c4] [n7, h7, w7, c7] num_classes = Inr [n7, 2 * h7, 2 * w7, c4]"
  by (simp add: fcn_layer9_def fcn_layer8_def conv2d_def conv2d_transpose_def last_dim_def
        and_then_def deconv_length_def)

lemma fcn_layer9_channels:
  assumes "fcn_layer9 vgg_layer4_out vgg_layer7_out num_classes = Inr s"
  shows "length s = 4 \<and> vgg_layer4_out \<noteq> [] \<and> last s = last vgg_layer4_out"
  using assms
  by (auto simp: fcn_layer9_def fcn_layer8_def conv2d_def conv2d_transpose_def last_dim_def
        and_then_def split: list.splits if_splits sum.splits)

lemma fcn_layer10_channels:
  assumes "fcn_layer10 vgg_layer3_out vgg_layer4_out vgg_layer7_out num_classes = Inr s"
  shows "length s = 4 \<and> vgg_layer3_out \<noteq> [] \<and> last s = last vgg_layer3_out"
  using assms
  by (auto simp: fcn_layer10_def conv2d_transpose_def last_dim_def
        and_then_def split: list.splits if_splits sum.splits)

lemma fcn_layer10_shape:
  assumes "fcn_layer9 [n4, h4, w4, c4] [n7, h7, w7, c7] num_classes = Inr [n4, h4, w4, c4]"
  shows "fcn_layer10 [n3, h3, w3, c3] [n4, h4, w4, c4] [n7, h7, w7, c7] num_classes
     = Inr [n4, 2 * h4, 2 * w4, c3]"
  using assms
  by (simp add: fcn_layer10_def fcn_layer9_skip_from_layer4_def tf_add_same and_then_def
        last_dim_def conv2d_transpose_def deconv_length_def)

lemma vgg_shapes_160_576:
  "fcn_layer9 [1, 10, 36, 512] [1, 5, 18, 4096] 2 = Inr [1, 10, 36, 512]"
  "fcn_layer10 [1, 20, 72, 256] [1, 10, 36, 512] [1, 5, 18, 4096] 2 = Inr [1, 20, 72, 256]"
  by (simp_all add: fcn_layer10_def fcn_layer9_skip_from_layer4_def fcn_layer9_shape tf_add_same
        and_then_def last_dim_def conv2d_transpose_def deconv_length_def)

subsection \<open>The claims\<close>

text \<open>
  C1. With \<open>epochs = 1\<close> and \<open>batch_size = 2\<close>, a batch generator that yields exactly two
  batches and stops, and a session whose two steps succeed, \<open>train_nn\<close> returns, having
  called the generator once, run exactly two optimization steps (one \<open>sess.run\<close> of the
  loss and \<open>train_op\<close> per batch, in order) and printed exactly one loss line, the sum
  of the two fetched losses.
\<close>

theorem train_nn_one_epoch_two_batches:
  assumes gen: "get_batches_fn 2 (outside w) = (([(X1, y1), (X2, y2)], None), g')"
    and step1: "sess (train_fetches cel trn) (train_feed ii cl kp lr X1 y1) (session w) = Inr (l1, s1)"
    and step2: "sess (train_fetches cel trn) (train_feed ii cl kp lr X2 y2) s1 = Inr (l2, s2)"
  shows "\<exists>w'. train_nn sess 1 2 get_batches_fn trn cel ii cl kp lr w = Returned () w' \<and>
     added w w' =
       [Get_batches 2,
        Sess_run (train_fetches cel trn) (train_feed ii cl kp lr X1 y1) (Inr l1),
        Sess_run (train_fetches cel trn) (train_feed ii cl kp lr X2 y2) (Inr l2),
        Printed (Epoch_line 1), Printed (Loss_line (0 + l1 + l2)), Printed Blank_line] \<and>
     length (filter is_sess_run (added w w')) = 2 \<and>
     length (filter is_loss_line (added w w')) = 1 \<and>
     session w' = s2"
proof -
  let ?w' = "w\<lparr>session := s2, outside := g',
      trace := trace w @
       [Get_batches 2,
        Sess_run (train_fetches cel trn) (train_feed ii cl kp lr X1 y1) (Inr l1),
        Sess_run (train_fetches cel trn) (train_feed ii cl kp lr X2 y2) (Inr l2),
        Printed (Epoch_line 1), Printed (Loss_line (0 + l1 + l2)), Printed Blank_line]\<rparr>"
  have "train_nn sess 1 2 get_batches_fn trn cel ii cl kp lr w = Returned () ?w'"
    by (simp add: train_nn_def range_py_def gen optimization_step_def Let_def emit_def
          step1 step2 report_def)
  moreover have "added w ?w' =
       [Get_batches 2,
        Sess_run (train_fetches cel trn) (train_feed ii cl kp lr X1 y1) (Inr l1),
        Sess_run (train_fetches cel trn) (train_feed ii cl kp lr X2 y2) (Inr l2),
        Printed (Epoch_line 1), Printed (Loss_line (0 + l1 + l2)), Printed Blank_line]"
    by (simp add: added_def)
  ultimately show ?thesis
    by (intro exI [of _ ?w']) simp
qed

text \<open>The scenario of C1 on the toy session and generator.\<close>

theorem train_nn_one_epoch_two_batches_witness:
  "toy_batches 2 (outside toy_world) = (([(0, 10), (1, 11)], None), 1) \<and>
   toy_sess (train_fetches ''loss'' ''op'') (train_feed ''x'' ''y'' ''kp'' ''lr'' 0 10)
     (session toy_world) = Inr (1, 1) \<and>
   toy_sess (train_fetches ''loss'' ''op'') (train_feed ''x'' ''y'' ''kp'' ''lr'' 1 11) 1 = Inr (2, 2) \<and>
   (\<exists>w'. train_nn toy_sess 1 2 toy_batches ''op'' ''loss'' ''x'' ''y'' ''kp'' ''lr'' toy_world
            = Returned () w' \<and>
      added toy_world w' =
       [Get_batches 2,
        Sess_run (train_fetches ''loss'' ''op'') (train_feed ''x'' ''y'' ''kp'' ''lr'' 0 10) (Inr 1),
        Sess_run (train_fetches ''loss'' ''op'') (train_feed ''x'' ''y'' ''kp'' ''lr'' 1 11) (Inr 2),
        Printed (Epoch_line 1), Printed (Loss_line (0 + 1 + 2)), Printed Blank_line] \<and>
      length (filter is_sess_run (added toy_world w')) = 2 \<and>
      length (filter is_loss_line (added toy_world w')) = 1 \<and>
      session w' = 2)"
proof -
  have gen: "toy_batches 2 (outside toy_world) = (([(0, 10), (1, 11)], None), 1)"
    by (simp add: toy_batches_def toy_world_def)
  have step1: "toy_sess (train_fetches ''loss'' ''op'') (train_feed ''x'' ''y'' ''kp'' ''lr'' 0 10)
     (session toy_world) = Inr (1, 1)"
    by (simp add: toy_sess_def toy_world_def)
  have step2: "toy_sess (train_fetches ''loss'' ''op'') (train_feed ''x'' ''y'' ''kp'' ''lr'' 1 11) 1
      = Inr (2, 2)"
    by (simp add: toy_sess_def)
  from train_nn_one_epoch_two_batches
         [where get_batches_fn = toy_batches and sess = toy_sess and w = toy_world,
          OF gen step1 step2] gen step1 step2
  show ?thesis
    by blast
qed

text \<open>
  C3. Whatever the outcome of \<open>train_nn\<close>, what it added to the record is one
  \<open>epoch_record\<close> per completed epoch, for the epochs \<open>0, 1, ...\<close> in order, followed
  by the part of an epoch an exception cut short, which has no loss line. So every
  completed epoch printed exactly one loss line, and it carries the sum, from 0, of the
  losses fetched by the steps of that epoch alone. When \<open>train_nn\<close> returns, all
  \<open>epochs\<close> epochs are completed and nothing follows them.
\<close>

theorem train_nn_reports_epoch_sums:
  assumes "train_nn sess epochs batch_size get_batches_fn trn cel ii cl kp lr w = r"
  shows "\<exists>stepss rest.
     added w (final r) =
       concat (map2 (epoch_record batch_size) (range_py epochs) stepss) @ rest \<and>
     list_all (list_all (ok_step trn cel ii cl kp lr)) stepss \<and>
     filter is_loss_line rest = [] \<and>
     (case r of
        Returned u w' \<Rightarrow> length stepss = nat epochs \<and> rest = []
      | Raised e w' \<Rightarrow> length stepss < nat epochs)"
proof -
  let ?ok = "ok_step trn cel ii cl kp lr"
  from train_nn_record [OF assms] obtain stepss rest where
    tr: "trace (final r) = trace w @
          concat (map2 (epoch_record batch_size) (range_py epochs) stepss) @ rest"
    and oks: "list_all (list_all ?ok) stepss"
    and cs: "(case r of
         Returned u w' \<Rightarrow> length stepss = nat epochs \<and> rest = []
       | Raised e w' \<Rightarrow> length stepss < nat epochs \<and>
           (\<exists>steps. list_all ?ok steps \<and>
              (rest = Get_batches batch_size # steps \<or>
               (\<exists>X y. rest = Get_batches batch_size # steps @
                  [Sess_run (train_fetches cel trn) (train_feed ii cl kp lr X y) (Inl e)]))))"
    by blast
  have new: "added w (final r) =
      concat (map2 (epoch_record batch_size) (range_py epochs) stepss) @ rest"
    using tr by (simp add: added_def)
  have nol: "filter is_loss_line rest = []"
  proof (cases r)
    case (Returned u w')
    with cs show ?thesis by simp
  next
    case (Raised e w')
    with cs obtain steps where
      st: "list_all ?ok steps" and
      alt: "rest = Get_batches batch_size # steps \<or>
        (\<exists>X y. rest = Get_batches batch_size # steps @
           [Sess_run (train_fetches cel trn) (train_feed ii cl kp lr X y) (Inl e)])"
      by auto
    from alt ok_steps_kinds(3) [OF st] show ?thesis
      by auto
  qed
  have "(case r of
        Returned u w' \<Rightarrow> length stepss = nat epochs \<and> rest = []
      | Raised e w' \<Rightarrow> length stepss < nat epochs)"
    using cs by (cases r) auto
  with new oks nol show ?thesis
    by blast
qed

text \<open>
  Two epochs on the toy session: the losses are 1, 2 and then 3, 4; the loss lines are 3
  and 7 (not 10: the second epoch starts from 0 again).
\<close>

theorem train_nn_reports_epoch_sums_witness:
  "added toy_world
     (final (train_nn toy_sess 2 2 toy_batches ''op'' ''loss'' ''x'' ''y'' ''kp'' ''lr'' toy_world)) =
     [Get_batches 2,
      Sess_run [''loss'', ''op''] (train_feed ''x'' ''y'' ''kp'' ''lr'' 0 10) (Inr 1),
      Sess_run [''loss'', ''op''] (train_feed ''x'' ''y'' ''kp'' ''lr'' 1 11) (Inr 2),
      Printed (Epoch_line 1), Printed (Loss_line 3), Printed Blank_line,
      Get_batches 2,
      Sess_run [''loss'', ''op''] (train_feed ''x'' ''y'' ''kp'' ''lr'' 0 10) (Inr 3),
      Sess_run [''loss'', ''op''] (train_feed ''x'' ''y'' ''kp'' ''lr'' 1 11) (Inr 4),
      Printed (Epoch_line 2), Printed (Loss_line 7), Printed Blank_line] \<and>
   (\<exists>stepss rest.
     added toy_world
       (final (train_nn toy_sess 2 2 toy_batches ''op'' ''loss'' ''x'' ''y'' ''kp'' ''lr'' toy_world)) =
       concat (map2 (epoch_record 2) (range_py 2) stepss) @ rest \<and>
     list_all (list_all (ok_step ''op'' ''loss'' ''x'' ''y'' ''kp'' ''lr'')) stepss \<and>
     filter is_loss_line rest = [] \<and>
     (case train_nn toy_sess 2 2 toy_batches ''op'' ''loss'' ''x'' ''y'' ''kp'' ''lr'' toy_world of
        Returned u w' \<Rightarrow> length stepss = nat 2 \<and> rest = []
      | Raised e w' \<Rightarrow> length stepss < nat 2))"
proof (rule conjI)
  show "added toy_world
     (final (train_nn toy_sess 2 2 toy_batches ''op'' ''loss'' ''x'' ''y'' ''kp'' ''lr'' toy_world)) =
     [Get_batches 2,
      Sess_run [''loss'', ''op''] (train_feed ''x'' ''y'' ''kp'' ''lr'' 0 10) (Inr 1),
      Sess_run [''loss'', ''op''] (train_feed ''x'' ''y'' ''kp'' ''lr'' 1 11) (Inr 2),
      Printed (Epoch_line 1), Printed (Loss_line 3), Printed Blank_line,
      Get_batches 2,
      Sess_run [''loss'', ''op''] (train_feed ''x'' ''y'' ''kp'' ''lr'' 0 10) (Inr 3),
      Sess_run [''loss'', ''op''] (train_feed ''x'' ''y'' ''kp'' ''lr'' 1 11) (Inr 4),
      Printed (Epoch_line 2), Printed (Loss_line 7), Printed Blank_line]"
    unfolding toy_two_epochs by (simp add: added_def toy_world_def)
next
  show "\<exists>stepss rest.
     added toy_world
       (final (train_nn toy_sess 2 2 toy_batches ''op'' ''loss'' ''x'' ''y'' ''kp'' ''lr'' toy_world)) =
       concat (map2 (epoch_record 2) (range_py 2) stepss) @ rest \<and>
     list_all (list_all (ok_step ''op'' ''loss'' ''x'' ''y'' ''kp'' ''lr'')) stepss \<and>
     filter is_loss_line rest = [] \<and>
     (case train_nn toy_sess 2 2 toy_batches ''op'' ''loss'' ''x'' ''y'' ''kp'' ''lr'' toy_world of
        Returned u w' \<Rightarrow> length stepss = nat 2 \<and> rest = []
      | Raised e w' \<Rightarrow> length stepss < nat 2)"
    by (rule train_nn_reports_epoch_sums [OF refl])
qed

text \<open>
  C4. The four constants have the values written in the source. Every optimization
  step of \<open>train_nn\<close>, in every epoch and for every batch, whatever the arguments and the
  world, feeds \<open>KP_VALUE\<close> for \<open>keep_prob\<close> and \<open>LR_VALUE\<close> for \<open>learning_rate\<close>, next
  to the two arrays of the batch. In \<open>run\<close>, whatever the collaborators do, every
  optimization step feeds these two constants, every call of the batch generator passes
  \<open>BATCH_SIZE\<close>, and the generator is called at most \<open>NUM_EPOCHS\<close> times.
\<close>

theorem hyperparameters_are_constants:
  "KP_VALUE = 1 / 2 \<and> LR_VALUE = 1 / 1000 \<and> NUM_EPOCHS = 50 \<and> BATCH_SIZE = 16 \<and>
   (\<forall>f fd r.
      Sess_run f fd r \<in> set (added w
        (final (train_nn sess epochs batch_size get_batches_fn trn cel ii cl kp lr w))) \<longrightarrow>
      (\<exists>X y. fd = [(ii, Array X), (cl, Array y), (kp, Scalar KP_VALUE), (lr, Scalar LR_VALUE)])) \<and>
   (\<forall>f fd r.
      Sess_run f fd r \<in> set (added w0 (final (run c w0))) \<longrightarrow>
      (\<exists>img_input keep_prob X y.
         fd = [(img_input, Array X), (''correct_label'', Array y),
               (keep_prob, Scalar KP_VALUE), (''learning_rate'', Scalar LR_VALUE)])) \<and>
   (\<forall>b. Get_batches b \<in> set (added w0 (final (run c w0))) \<longrightarrow> b = BATCH_SIZE) \<and>
   length (filter is_get_batches (added w0 (final (run c w0)))) \<le> nat NUM_EPOCHS"
proof (intro conjI allI impI)
  show "KP_VALUE = 1 / 2" "LR_VALUE = 1 / 1000" "NUM_EPOCHS = 50" "BATCH_SIZE = 16"
    by (simp_all add: KP_VALUE_def LR_VALUE_def NUM_EPOCHS_def BATCH_SIZE_def)
next
  fix f fd r
  assume "Sess_run f fd r \<in> set (added w
        (final (train_nn sess epochs batch_size get_batches_fn trn cel ii cl kp lr w)))"
  from train_nn_events [OF this]
  show "\<exists>X y. fd = [(ii, Array X), (cl, Array y), (kp, Scalar KP_VALUE), (lr, Scalar LR_VALUE)]"
    by (auto simp: train_feed_def)
next
  fix f fd r
  assume "Sess_run f fd r \<in> set (added w0 (final (run c w0)))"
  from run_loop_events [OF this] obtain w1 img_input keep_prob trn cel where
    "Sess_run f fd r \<in> set (added w1 (final (train_nn (session_run c) NUM_EPOCHS BATCH_SIZE
            (gen_batch_function c ''./data/data_road/training'' (160, 576))
            trn cel img_input ''correct_label'' keep_prob ''learning_rate'' w1)))"
    by auto
  from train_nn_events [OF this]
  show "\<exists>img_input keep_prob X y.
         fd = [(img_input, Array X), (''correct_label'', Array y),
               (keep_prob, Scalar KP_VALUE), (''learning_rate'', Scalar LR_VALUE)]"
    by (auto simp: train_feed_def)
next
  fix b
  assume "Get_batches b \<in> set (added w0 (final (run c w0)))"
  from run_loop_events [OF this] obtain w1 img_input keep_prob trn cel where
    "Get_batches b \<in> set (added w1 (final (train_nn (session_run c) NUM_EPOCHS BATCH_SIZE
            (gen_batch_function c ''./data/data_road/training'' (160, 576))
            trn cel img_input ''correct_label'' keep_prob ''learning_rate'' w1)))"
    by auto
  from train_nn_events [OF this]
  show "b = BATCH_SIZE"
    by auto
next
  show "length (filter is_get_batches (added w0 (final (run c w0)))) \<le> nat NUM_EPOCHS"
    by (rule run_get_batches_count)
qed

text \<open>Steps and generator calls found in the records of the toy runs.\<close>

theorem hyperparameters_are_constants_witness:
  "Sess_run [''loss'', ''op''] (train_feed ''x'' ''y'' ''kp'' ''lr'' 0 10) (Inr 1)
     \<in> set (added toy_world
          (final (train_nn toy_sess 3 2 toy_batches ''op'' ''loss'' ''x'' ''y'' ''kp'' ''lr'' toy_world))) \<and>
   (\<exists>X y. train_feed ''x'' ''y'' ''kp'' ''lr'' (0::nat) 10 =
      [(''x'', Array X), (''y'', Array y), (''kp'', Scalar KP_VALUE), (''lr'', Scalar LR_VALUE)]) \<and>
   Sess_run [''fcn_loss'', ''fcn_train_op'']
      (train_feed ''image_input:0'' ''correct_label'' ''keep_prob:0'' ''learning_rate'' 0 10) (Inr 1)
     \<in> set (added toy_world (final (run toy_env toy_world))) \<and>
   (\<exists>img_input keep_prob X y.
      train_feed ''image_input:0'' ''correct_label'' ''keep_prob:0'' ''learning_rate'' (0::nat) 10 =
        [(img_input, Array X), (''correct_label'', Array y),
         (keep_prob, Scalar KP_VALUE), (''learning_rate'', Scalar LR_VALUE)]) \<and>
   Get_batches 16 \<in> set (added toy_world (final (run toy_env toy_world))) \<and>
   16 = BATCH_SIZE \<and>
   length (filter is_get_batches (added toy_world (final (run toy_env toy_world)))) \<le> nat NUM_EPOCHS"
proof -
  have a: "Sess_run [''loss'', ''op''] (train_feed ''x'' ''y'' ''kp'' ''lr'' 0 10) (Inr 1)
     \<in> set (added toy_world
          (final (train_nn toy_sess 3 2 toy_batches ''op'' ''loss'' ''x'' ''y'' ''kp'' ''lr'' toy_world)))"
    unfolding toy_three_epochs by (simp add: added_def toy_world_def)
  have b: "Sess_run [''fcn_loss'', ''fcn_train_op'']
      (train_feed ''image_input:0'' ''correct_label'' ''keep_prob:0'' ''learning_rate'' 0 10) (Inr 1)
     \<in> set (added toy_world (final (run toy_env toy_world)))"
    unfolding toy_run by (simp add: added_def toy_world_def)
  have c: "Get_batches 16 \<in> set (added toy_world (final (run toy_env toy_world)))"
    unfolding toy_run by (simp add: added_def toy_world_def)
  from hyperparameters_are_constants [of toy_world toy_sess 3 2 toy_batches "''op''" "''loss''"
      "''x''" "''y''" "''kp''" "''lr''" toy_world toy_env] a b c
  show ?thesis
    by blast
qed

text \<open>
  C5. If an optimization step raised (the record of \<open>train_nn\<close> holds a \<open>sess.run\<close>
  that ended in an exception \<open>e\<close>), then \<open>train_nn\<close> raised that same exception, the
  failed step is the last thing recorded, and no step before it had failed: nothing
  was retried, nothing ran after it. The same holds for the whole of \<open>run\<close>: it raises
  \<open>e\<close> and records nothing after the failed step, neither a further step nor any
  inference.
\<close>

theorem optimization_failure_is_fatal:
  "(Sess_run f fd (Inl e) \<in> set (added w
        (final (train_nn sess epochs batch_size get_batches_fn trn cel ii cl kp lr w))) \<longrightarrow>
      (\<exists>w'. train_nn sess epochs batch_size get_batches_fn trn cel ii cl kp lr w = Raised e w') \<and>
      (\<exists>before.
         added w (final (train_nn sess epochs batch_size get_batches_fn trn cel ii cl kp lr w)) =
           before @ [Sess_run f fd (Inl e)] \<and>
         \<not> list_ex is_failed_step before)) \<and>
   (Sess_run f fd (Inl e) \<in> set (added w0 (final (run c w0))) \<longrightarrow>
      (\<exists>w'. run c w0 = Raised e w') \<and>
      (\<exists>before.
         added w0 (final (run c w0)) = before @ [Sess_run f fd (Inl e)] \<and>
         \<not> list_ex is_failed_step before))"
proof (intro conjI impI)
  assume "Sess_run f fd (Inl e) \<in> set (added w
        (final (train_nn sess epochs batch_size get_batches_fn trn cel ii cl kp lr w)))"
  from train_nn_failed_step [OF refl this]
  show "\<exists>w'. train_nn sess epochs batch_size get_batches_fn trn cel ii cl kp lr w = Raised e w'"
    and "\<exists>before.
         added w (final (train_nn sess epochs batch_size get_batches_fn trn cel ii cl kp lr w)) =
           before @ [Sess_run f fd (Inl e)] \<and>
         \<not> list_ex is_failed_step before"
    by blast+
next
  assume bad0: "Sess_run f fd (Inl e) \<in> set (added w0 (final (run c w0)))"
  then obtain ev where ev: "ev = Sess_run f fd (Inl e)"
    and bad: "ev \<in> set (added w0 (final (run c w0)))"
    by blast
  have isf: "is_failed_step ev"
    by (simp add: ev)
  from run_record [of c w0]
  consider (halted) e' w1 n where "run c w0 = Raised e' w1" "added w0 w1 = take n setup_record"
    | (built) w1 img_input keep_prob logits trn cel r evs where
      "r = train_nn (session_run c) NUM_EPOCHS BATCH_SIZE
            (gen_batch_function c ''./data/data_road/training'' (160, 576))
            trn cel img_input ''correct_label'' keep_prob ''learning_rate'' w1"
      "added w0 (final (run c w0)) = setup_record @ added w1 (final r) @ evs"
      "list_all is_inference evs"
      "(case r of
         Raised e w2 \<Rightarrow> run c w0 = Raised e w2 \<and> evs = []
       | Returned u w2 \<Rightarrow> run_training c w0 = Returned (logits, keep_prob, img_input) w2)"
    by blast
  then have "(\<exists>w'. run c w0 = Raised e w') \<and>
      (\<exists>before.
         added w0 (final (run c w0)) = before @ [ev] \<and> \<not> list_ex is_failed_step before)"
  proof cases
    case halted
    with bad have "ev \<in> set (take n setup_record)"
      by simp
    from setup_record_kinds(3) [OF this] isf show ?thesis
      by blast
  next
    case built
    from bad built(2)
    have "ev \<in> set (take 6 setup_record) \<or> ev \<in> set (added w1 (final r)) \<or> ev \<in> set evs"
      by (auto simp: setup_record_def)
    with isf setup_record_kinds(3) [of ev 6] inference_kinds(3) [OF built(3), of ev]
    have "ev \<in> set (added w1 (final r))"
      by blast
    from train_nn_failed_step [OF built(1) [symmetric] this [unfolded ev]] obtain w' before where
      r: "r = Raised e w'" and
      bf: "added w1 (final r) = before @ [ev]" "\<not> list_ex is_failed_step before"
      unfolding ev by blast
    from built(4) r have run: "run c w0 = Raised e w'" and no: "evs = []"
      by simp_all
    have "\<not> list_ex is_failed_step (setup_record @ before)"
      using bf(2) by (simp add: setup_record_def)
    moreover have "added w0 (final (run c w0)) = (setup_record @ before) @ [ev]"
      using built(2) bf(1) no by simp
    ultimately show ?thesis
      using run by blast
  qed
  then show "\<exists>w'. run c w0 = Raised e w'"
    and "\<exists>before.
         added w0 (final (run c w0)) = before @ [Sess_run f fd (Inl e)] \<and>
         \<not> list_ex is_failed_step before"
    unfolding ev by blast+
qed

text \<open>The toy session raises on its sixth step, in the third epoch.\<close>

theorem optimization_failure_is_fatal_witness:
  "Sess_run [''loss'', ''op''] (train_feed ''x'' ''y'' ''kp'' ''lr'' 1 11)
      (Inl (Exn ''InvalidArgumentError'' ''Incompatible shapes''))
     \<in> set (added toy_world
          (final (train_nn toy_sess 3 2 toy_batches ''op'' ''loss'' ''x'' ''y'' ''kp'' ''lr'' toy_world))) \<and>
   (\<exists>w'. train_nn toy_sess 3 2 toy_batches ''op'' ''loss'' ''x'' ''y'' ''kp'' ''lr'' toy_world =
      Raised (Exn ''InvalidArgumentError'' ''Incompatible shapes'') w') \<and>
   (\<exists>before.
      added toy_world
        (final (train_nn toy_sess 3 2 toy_batches ''op'' ''loss'' ''x'' ''y'' ''kp'' ''lr'' toy_world)) =
        before @ [Sess_run [''loss'', ''op''] (train_feed ''x'' ''y'' ''kp'' ''lr'' 1 11)
                    (Inl (Exn ''InvalidArgumentError'' ''Incompatible shapes''))] \<and>
      \<not> list_ex is_failed_step before) \<and>
   Sess_run [''fcn_loss'', ''fcn_train_op'']
      (train_feed ''image_input:0'' ''correct_label'' ''keep_prob:0'' ''learning_rate'' 1 11)
      (Inl (Exn ''InvalidArgumentError'' ''Incompatible shapes''))
     \<in> set (added toy_world (final (run toy_env toy_world))) \<and>
   (\<exists>w'. run toy_env toy_world = Raised (Exn ''InvalidArgumentError'' ''Incompatible shapes'') w') \<and>
   (\<exists>before.
      added toy_world (final (run toy_env toy_world)) =
        before @ [Sess_run [''fcn_loss'', ''fcn_train_op'']
                    (train_feed ''image_input:0'' ''correct_label'' ''keep_prob:0'' ''learning_rate'' 1 11)
                    (Inl (Exn ''InvalidArgumentError'' ''Incompatible shapes''))] \<and>
      \<not> list_ex is_failed_step before)"
proof -
  have a: "Sess_run [''loss'', ''op''] (train_feed ''x'' ''y'' ''kp'' ''lr'' 1 11)
      (Inl (Exn ''InvalidArgumentError'' ''Incompatible shapes''))
     \<in> set (added toy_world
          (final (train_nn toy_sess 3 2 toy_batches ''op'' ''loss'' ''x'' ''y'' ''kp'' ''lr'' toy_world)))"
    unfolding toy_three_epochs by (simp add: added_def toy_world_def)
  have b: "Sess_run [''fcn_loss'', ''fcn_train_op'']
      (train_feed ''image_input:0'' ''correct_label'' ''keep_prob:0'' ''learning_rate'' 1 11)
      (Inl (Exn ''InvalidArgumentError'' ''Incompatible shapes''))
     \<in> set (added toy_world (final (run toy_env toy_world)))"
    unfolding toy_run by (simp add: added_def toy_world_def)
  from a optimization_failure_is_fatal [of "[''loss'', ''op'']"
      "train_feed ''x'' ''y'' ''kp'' ''lr'' 1 11"
      "Exn ''InvalidArgumentError'' ''Incompatible shapes''" toy_world toy_sess 3 2 toy_batches
      "''op''" "''loss''" "''x''" "''y''" "''kp''" "''lr''"]
  have "(\<exists>w'. train_nn toy_sess 3 2 toy_batches ''op'' ''loss'' ''x'' ''y'' ''kp'' ''lr'' toy_world =
      Raised (Exn ''InvalidArgumentError'' ''Incompatible shapes'') w') \<and>
   (\<exists>before.
      added toy_world
        (final (train_nn toy_sess 3 2 toy_batches ''op'' ''loss'' ''x'' ''y'' ''kp'' ''lr'' toy_world)) =
        before @ [Sess_run [''loss'', ''op''] (train_feed ''x'' ''y'' ''kp'' ''lr'' 1 11)
                    (Inl (Exn ''InvalidArgumentError'' ''Incompatible shapes''))] \<and>
      \<not> list_ex is_failed_step before)"
    by blast
  moreover
  from b optimization_failure_is_fatal [where f = "[''fcn_loss'', ''fcn_train_op'']"
      and fd = "train_feed ''image_input:0'' ''correct_label'' ''keep_prob:0'' ''learning_rate'' 1 11"
      and e = "Exn ''InvalidArgumentError'' ''Incompatible shapes''" and ?w0.0 = toy_world
      and c = toy_env]
  have "(\<exists>w'. run toy_env toy_world = Raised (Exn ''InvalidArgumentError'' ''Incompatible shapes'') w') \<and>
   (\<exists>before.
      added toy_world (final (run toy_env toy_world)) =
        before @ [Sess_run [''fcn_loss'', ''fcn_train_op'']
                    (train_feed ''image_input:0'' ''correct_label'' ''keep_prob:0'' ''learning_rate'' 1 11)
                    (Inl (Exn ''InvalidArgumentError'' ''Incompatible shapes''))] \<and>
      \<not> list_ex is_failed_step before)"
    by blast
  ultimately show ?thesis
    using a b by blast
qed

text \<open>
  C6. If the dataset check raises, \<open>run\<close> raises the same exception (class and message
  unchanged) having recorded nothing but the check; if the check passes and the model
  download raises, \<open>run\<close> raises that exception having recorded only the check and the
  download. In both cases no optimization step and no call of the batch generator is
  recorded. Conversely, whenever the record of \<open>run\<close> holds an optimization step or a
  call of the batch generator, both checks returned normally and the record starts with
  them: they come strictly before \<open>train_nn\<close>.
\<close>

theorem configuration_errors_before_training:
  "(test_for_kitti_dataset c ''./data'' (outside w) = Some e \<longrightarrow>
      run c w = Raised e (emit (Test_for_kitti_dataset ''./data'') w)) \<and>
   (test_for_kitti_dataset c ''./data'' (outside w) = None \<and>
    maybe_download_pretrained_vgg c ''./data'' (outside w) = Inl e \<longrightarrow>
      run c w = Raised e
        (emit (Maybe_download_pretrained_vgg ''./data'')
           (emit (Test_for_kitti_dataset ''./data'') w))) \<and>
   (ev \<in> set (added w (final (run c w))) \<and> (is_sess_run ev \<or> is_get_batches ev) \<longrightarrow>
      test_for_kitti_dataset c ''./data'' (outside w) = None \<and>
      (\<exists>g. maybe_download_pretrained_vgg c ''./data'' (outside w) = Inr g) \<and>
      (\<exists>rest. added w (final (run c w)) =
         Test_for_kitti_dataset ''./data'' # Maybe_download_pretrained_vgg ''./data'' # rest))"
proof (intro conjI impI)
  assume "test_for_kitti_dataset c ''./data'' (outside w) = Some e"
  then show "run c w = Raised e (emit (Test_for_kitti_dataset ''./data'') w)"
    by (rule run_check_fails)
next
  assume "test_for_kitti_dataset c ''./data'' (outside w) = None \<and>
    maybe_download_pretrained_vgg c ''./data'' (outside w) = Inl e"
  then show "run c w = Raised e
        (emit (Maybe_download_pretrained_vgg ''./data'')
           (emit (Test_for_kitti_dataset ''./data'') w))"
    by (simp add: run_download_fails)
next
  assume h: "ev \<in> set (added w (final (run c w))) \<and> (is_sess_run ev \<or> is_get_batches ev)"
  then have ev: "ev \<in> set (added w (final (run c w)))"
    and kind: "is_sess_run ev \<or> is_get_batches ev"
    by simp_all
  show passed: "test_for_kitti_dataset c ''./data'' (outside w) = None"
  proof (cases "test_for_kitti_dataset c ''./data'' (outside w)")
    case None
    then show ?thesis .
  next
    case (Some e')
    from run_check_fails [OF this] ev have "ev = Test_for_kitti_dataset ''./data''"
      by (simp add: added_def emit_def)
    with kind show ?thesis
      by simp
  qed
  show "\<exists>g. maybe_download_pretrained_vgg c ''./data'' (outside w) = Inr g"
  proof (cases "maybe_download_pretrained_vgg c ''./data'' (outside w)")
    case (Inr g)
    then show ?thesis by blast
  next
    case (Inl e')
    from run_download_fails [OF passed this] ev
    have "ev = Test_for_kitti_dataset ''./data'' \<or> ev = Maybe_download_pretrained_vgg ''./data''"
      by (auto simp: added_def emit_def)
    with kind show ?thesis
      by auto
  qed
  from run_record [of c w]
  consider (halted) e' w1 n where "run c w = Raised e' w1" "added w w1 = take n setup_record"
    | (built) w1 img_input keep_prob trn cel r evs where
      "r = train_nn (session_run c) NUM_EPOCHS BATCH_SIZE
            (gen_batch_function c ''./data/data_road/training'' (160, 576))
            trn cel img_input ''correct_label'' keep_prob ''learning_rate'' w1"
      "added w (final (run c w)) = setup_record @ added w1 (final r) @ evs"
    by blast
  then show "\<exists>rest. added w (final (run c w)) =
         Test_for_kitti_dataset ''./data'' # Maybe_download_pretrained_vgg ''./data'' # rest"
  proof cases
    case halted
    with ev have "ev \<in> set (take n setup_record)"
      by simp
    from setup_record_kinds(1,2) [OF this] kind show ?thesis
      by blast
  next
    case built
    then show ?thesis
      by (simp add: setup_record_def)
  qed
qed

text \<open>A failing dataset check, a failing download, and the toy run in which both pass.\<close>

theorem configuration_errors_before_training_witness:
  "test_for_kitti_dataset no_dataset_env ''./data'' (outside toy_world) =
     Some (Exn ''AssertionError'' ''data_road dataset not found'') \<and>
   run no_dataset_env toy_world =
     Raised (Exn ''AssertionError'' ''data_road dataset not found'')
       (emit (Test_for_kitti_dataset ''./data'') toy_world) \<and>
   test_for_kitti_dataset no_model_env ''./data'' (outside toy_world) = None \<and>
   maybe_download_pretrained_vgg no_model_env ''./data'' (outside toy_world) =
     Inl (Exn ''URLError'' ''cannot download the vgg model'') \<and>
   run no_model_env toy_world =
     Raised (Exn ''URLError'' ''cannot download the vgg model'')
       (emit (Maybe_download_pretrained_vgg ''./data'')
          (emit (Test_for_kitti_dataset ''./data'') toy_world)) \<and>
   Get_batches 16 \<in> set (added toy_world (final (run toy_env toy_world))) \<and>
   is_get_batches (Get_batches 16 :: (nat, int) event) \<and>
   test_for_kitti_dataset toy_env ''./data'' (outside toy_world) = None \<and>
   (\<exists>g. maybe_download_pretrained_vgg toy_env ''./data'' (outside toy_world) = Inr g) \<and>
   (\<exists>rest. added toy_world (final (run toy_env toy_world)) =
      Test_for_kitti_dataset ''./data'' # Maybe_download_pretrained_vgg ''./data'' # rest)"
proof -
  have a: "test_for_kitti_dataset no_dataset_env ''./data'' (outside toy_world) =
     Some (Exn ''AssertionError'' ''data_road dataset not found'')"
    by (simp add: no_dataset_env_def)
  have b: "test_for_kitti_dataset no_model_env ''./data'' (outside toy_world) = None"
    "maybe_download_pretrained_vgg no_model_env ''./data'' (outside toy_world) =
       Inl (Exn ''URLError'' ''cannot download the vgg model'')"
    by (simp_all add: no_model_env_def toy_env_def)
  have c: "Get_batches 16 \<in> set (added toy_world (final (run toy_env toy_world)))"
    "is_get_batches (Get_batches 16 :: (nat, int) event)"
    unfolding toy_run by (simp_all add: added_def toy_world_def)
  from a configuration_errors_before_training [where c = no_dataset_env and w = toy_world
      and e = "Exn ''AssertionError'' ''data_road dataset not found''"]
  have a': "run no_dataset_env toy_world =
     Raised (Exn ''AssertionError'' ''data_road dataset not found'')
       (emit (Test_for_kitti_dataset ''./data'') toy_world)"
    by blast
  from b configuration_errors_before_training [where c = no_model_env and w = toy_world
      and e = "Exn ''URLError'' ''cannot download the vgg model''"]
  have b': "run no_model_env toy_world =
     Raised (Exn ''URLError'' ''cannot download the vgg model'')
       (emit (Maybe_download_pretrained_vgg ''./data'')
          (emit (Test_for_kitti_dataset ''./data'') toy_world))"
    by blast
  from c configuration_errors_before_training [where c = toy_env and w = toy_world
      and ev = "Get_batches 16"]
  have c': "test_for_kitti_dataset toy_env ''./data'' (outside toy_world) = None \<and>
   (\<exists>g. maybe_download_pretrained_vgg toy_env ''./data'' (outside toy_world) = Inr g) \<and>
   (\<exists>rest. added toy_world (final (run toy_env toy_world)) =
      Test_for_kitti_dataset ''./data'' # Maybe_download_pretrained_vgg ''./data'' # rest)"
    by blast
  from a a' b b' c c' show ?thesis
    by blast
qed

text \<open>
  C7. If the training part of \<open>run\<close> returned in a world \<open>w1\<close>, then everything \<open>run\<close>
  records after it is a forward pass or the writing of an output file, never a
  \<open>sess.run\<close> of the training operation; the session state at the end of \<open>run\<close> is
  that of \<open>w1\<close>, and so is the session state after any number of test images: every
  forward pass reads the parameters as training left them.
\<close>

theorem inference_leaves_parameters_unchanged:
  assumes "run_training c w = Returned (logits, keep_prob, img_input) w1"
  shows "session (final (run c w)) = session w1 \<and>
     (\<exists>evs. trace (final (run c w)) = trace w1 @ evs \<and> list_all is_inference evs \<and>
        \<not> list_ex is_sess_run evs) \<and>
     (\<forall>k. session (final (inference_loop c (output_dir c ''./runs'' (outside w1)) logits
              keep_prob img_input (take k (test_images c ''./data'' (160, 576) (outside w1))) w1))
           = session w1)"
proof -
  have run: "run c w =
      inference_loop c (output_dir c ''./runs'' (outside w1)) logits keep_prob img_input
        (test_images c ''./data'' (160, 576) (outside w1)) w1"
    using assms by (simp add: run_def call_def save_inference_samples_def)
  from inference_loop_record [of c "output_dir c ''./runs'' (outside w1)" logits keep_prob
      img_input "test_images c ''./data'' (160, 576) (outside w1)" w1]
  obtain evs where
    evs: "trace (final (run c w)) = trace w1 @ evs" "list_all is_inference evs"
    and s: "session (final (run c w)) = session w1"
    unfolding run by blast
  have "\<not> list_ex is_sess_run evs"
    using inference_kinds(1) [OF evs(2)] by (auto simp: list_ex_iff)
  moreover have "session (final (inference_loop c (output_dir c ''./runs'' (outside w1)) logits
              keep_prob img_input (take k (test_images c ''./data'' (160, 576) (outside w1))) w1))
           = session w1" for k
    using inference_loop_record [of c "output_dir c ''./runs'' (outside w1)" logits keep_prob
      img_input "take k (test_images c ''./data'' (160, 576) (outside w1))" w1]
    by blast
  ultimately show ?thesis
    using evs s by blast
qed

text \<open>The run with the session that never raises: training returns, inference follows.\<close>

theorem inference_leaves_parameters_unchanged_witness:
  "run_training steady_env toy_world =
     Returned (''fcn_logits'', ''keep_prob:0'', ''image_input:0'')
       (final (run_training steady_env toy_world)) \<and>
   session (final (run steady_env toy_world)) = session (final (run_training steady_env toy_world)) \<and>
   (\<exists>evs. trace (final (run steady_env toy_world)) =
        trace (final (run_training steady_env toy_world)) @ evs \<and>
      list_all is_inference evs \<and> \<not> list_ex is_sess_run evs) \<and>
   (\<forall>k. session (final (inference_loop steady_env
            (output_dir steady_env ''./runs'' (outside (final (run_training steady_env toy_world))))
            ''fcn_logits'' ''keep_prob:0'' ''image_input:0''
            (take k (test_images steady_env ''./data'' (160, 576)
               (outside (final (run_training steady_env toy_world)))))
            (final (run_training steady_env toy_world))))
         = session (final (run_training steady_env toy_world)))"
proof -
  from steady_run_training obtain w1 where
    "run_training steady_env toy_world =
      Returned (''fcn_logits'', ''keep_prob:0'', ''image_input:0'') w1"
    by blast
  then have r: "run_training steady_env toy_world =
     Returned (''fcn_logits'', ''keep_prob:0'', ''image_input:0'')
       (final (run_training steady_env toy_world))"
    by simp
  from inference_leaves_parameters_unchanged [OF r] r show ?thesis
    by blast
qed

text \<open>
  C2. For every batch size of at least 1 and every state of the random source (so for
  every epoch, whatever the earlier ones drew), the batch generator stops without an
  exception and its batches partition the training set: taken together they hold every
  sample exactly as often as the training set does, their sizes add up to the size of
  the training set, and a training set without duplicates is yielded without duplicates.
\<close>

theorem batch_generator_partitions:
  assumes size: "1 \<le> batch_size"
    and gen: "batch_generator training_set batch_size rng = ((batches, failure), rng')"
  shows "failure = None \<and>
     mset (concat (map samples_of batches)) = mset training_set \<and>
     sum_list (map (\<lambda>batch. length (samples_of batch)) batches) = length training_set \<and>
     (distinct training_set \<longrightarrow> distinct (concat (map samples_of batches)))"
proof -
  obtain order rng1 where sh: "shuffle training_set rng = (order, rng1)"
    by (cases "shuffle training_set rng")
  from size have pos: "0 < nat batch_size"
    by simp
  from gen size sh have
    b: "batches = map (\<lambda>c. (map fst c, map snd c)) (chunks (nat batch_size) order)"
    and f: "failure = None"
    by (simp_all add: batch_generator_def)
  have "map samples_of batches = chunks (nat batch_size) order"
    unfolding b by (simp add: samples_of_batch o_def)
  then have c: "concat (map samples_of batches) = order"
    by (simp add: concat_chunks [OF pos])
  have m: "mset order = mset training_set"
    using mset_shuffle [of training_set rng] sh by simp
  have "sum_list (map (\<lambda>batch. length (samples_of batch)) batches)
      = length (concat (map samples_of batches))"
    by (simp add: length_concat o_def)
  also have "\<dots> = length training_set"
    unfolding c using m by (metis size_mset)
  finally have l: "sum_list (map (\<lambda>batch. length (samples_of batch)) batches) = length training_set" .
  have "distinct training_set \<longrightarrow> distinct (concat (map samples_of batches))"
    unfolding c using m by (metis mset_eq_imp_distinct_iff)
  with f c m l show ?thesis
    by simp
qed

text \<open>Five samples in batches of two.\<close>

theorem batch_generator_partitions_witness:
  "(1::int) \<le> 2 \<and>
   batch_generator [(1::nat, 10), (2, 20), (3, 30), (4, 40), (5, 50)] 2 [3, 0, 1, 7] =
     (([([1, 4], [10, 40]), ([3, 5], [30, 50]), ([2], [20])], None), []) \<and>
   mset (concat (map samples_of [([1::nat, 4], [10, 40]), ([3, 5], [30, 50]), ([2], [20])])) =
     mset [(1, 10), (2, 20), (3, 30), (4, 40), (5, 50)] \<and>
   sum_list (map (\<lambda>batch. length (samples_of batch))
      [([1::nat, 4], [10::nat, 40]), ([3, 5], [30, 50]), ([2], [20])]) =
     length [(1::nat, 10::nat), (2, 20), (3, 30), (4, 40), (5, 50)] \<and>
   distinct [(1::nat, 10::nat), (2, 20), (3, 30), (4, 40), (5, 50)] \<and>
   distinct (concat (map samples_of [([1::nat, 4], [10::nat, 40]), ([3, 5], [30, 50]), ([2], [20])]))"
proof -
  have d: "distinct [(1::nat, 10::nat), (2, 20), (3, 30), (4, 40), (5, 50)]"
    by simp
  have one: "(1::int) \<le> 2"
    by simp
  from batch_generator_partitions [OF one toy_batch_generator] d toy_batch_generator one
  show ?thesis
    by blast
qed

text \<open>
  C9, as amended. Each transpose-convolution that feeds an add is built with as many
  filters as the skip source has channels, so whenever it is built it has rank 4 and the
  channel count of its skip source. Its stride 2 under padding \<open>SAME\<close> doubles height
  and width: for rank-4 inputs, both adds are applied to tensors of equal shape exactly
  when \<open>vgg_layer4_out\<close> has the batch size of \<open>vgg_layer7_out\<close> and twice its height and
  width, and \<open>vgg_layer3_out\<close> the batch size of \<open>vgg_layer4_out\<close> and twice its height
  and width; then \<open>layers\<close> returns a tensor of the batch size of its inputs, eight
  times the height and width of \<open>vgg_layer3_out\<close>, and \<open>num_classes\<close> channels.
\<close>

theorem layers_skip_shapes:
  "(fcn_layer9 vgg_layer4_out vgg_layer7_out num_classes = Inr s9 \<longrightarrow>
      length s9 = 4 \<and> last s9 = last vgg_layer4_out) \<and>
   (fcn_layer10 vgg_layer3_out vgg_layer4_out vgg_layer7_out num_classes = Inr s10 \<longrightarrow>
      length s10 = 4 \<and> last s10 = last vgg_layer3_out) \<and>
   ((fcn_layer9 [n4, h4, w4, c4] [n7, h7, w7, c7] num_classes = Inr [n4, h4, w4, c4] \<and>
     fcn_layer10 [n3, h3, w3, c3] [n4, h4, w4, c4] [n7, h7, w7, c7] num_classes = Inr [n3, h3, w3, c3])
    = (n4 = n7 \<and> h4 = 2 * h7 \<and> w4 = 2 * w7 \<and> n3 = n4 \<and> h3 = 2 * h4 \<and> w3 = 2 * w4)) \<and>
   (n4 = n7 \<and> h4 = 2 * h7 \<and> w4 = 2 * w7 \<and> n3 = n4 \<and> h3 = 2 * h4 \<and> w3 = 2 * w4 \<longrightarrow>
      layers [n3, h3, w3, c3] [n4, h4, w4, c4] [n7, h7, w7, c7] num_classes
        = Inr [n3, 8 * h3, 8 * w3, num_classes])"
proof (intro conjI impI)
  assume "fcn_layer9 vgg_layer4_out vgg_layer7_out num_classes = Inr s9"
  from fcn_layer9_channels [OF this]
  show "length s9 = 4" and "last s9 = last vgg_layer4_out"
    by simp_all
next
  assume "fcn_layer10 vgg_layer3_out vgg_layer4_out vgg_layer7_out num_classes = Inr s10"
  from fcn_layer10_channels [OF this]
  show "length s10 = 4" and "last s10 = last vgg_layer3_out"
    by simp_all
next
  show "(fcn_layer9 [n4, h4, w4, c4] [n7, h7, w7, c7] num_classes = Inr [n4, h4, w4, c4] \<and>
     fcn_layer10 [n3, h3, w3, c3] [n4, h4, w4, c4] [n7, h7, w7, c7] num_classes = Inr [n3, h3, w3, c3])
    = (n4 = n7 \<and> h4 = 2 * h7 \<and> w4 = 2 * w7 \<and> n3 = n4 \<and> h3 = 2 * h4 \<and> w3 = 2 * w4)"
    using fcn_layer10_shape [of n4 h4 w4 c4 n7 h7 w7 c7 num_classes n3 h3 w3 c3]
    by (auto simp: fcn_layer9_shape)
next
  assume h: "n4 = n7 \<and> h4 = 2 * h7 \<and> w4 = 2 * w7 \<and> n3 = n4 \<and> h3 = 2 * h4 \<and> w3 = 2 * w4"
  then have nine: "fcn_layer9 [n4, h4, w4, c4] [n7, h7, w7, c7] num_classes = Inr [n4, h4, w4, c4]"
    by (simp add: fcn_layer9_shape)
  from fcn_layer10_shape [OF nine, of n3 h3 w3 c3] h
  have ten: "fcn_layer10 [n3, h3, w3, c3] [n4, h4, w4, c4] [n7, h7, w7, c7] num_classes
      = Inr [n3, h3, w3, c3]"
    by simp
  show "layers [n3, h3, w3, c3] [n4, h4, w4, c4] [n7, h7, w7, c7] num_classes
        = Inr [n3, 8 * h3, 8 * w3, num_classes]"
    by (simp add: layers_def fcn_layer10_skip_from_layer3_def ten tf_add_same and_then_def
          conv2d_transpose_def deconv_length_def)
qed

text \<open>
  C9 as stated fails: for the feature maps of a 168 x 576 image (heights 21, 11 and 6)
  the first add is applied to shapes \<open>[1, 12, 36, 512]\<close> and \<open>[1, 11, 36, 512]\<close>, and
  \<open>tf.add\<close> rejects them.
\<close>

theorem layers_skip_shapes_counterexample:
  "fcn_layer9 [1, 11, 36, 512] [1, 6, 18, 4096] 2 = Inr [1, 12, 36, 512] \<and>
   [1, 12, 36, 512] \<noteq> [1 :: nat, 11, 36, 512] \<and>
   layers [1, 21, 72, 256] [1, 11, 36, 512] [1, 6, 18, 4096] 2 =
     Inl (Exn ''InvalidArgumentError'' ''Incompatible shapes'')"
  by (simp add: layers_def fcn_layer10_skip_from_layer3_def fcn_layer10_def
        fcn_layer9_skip_from_layer4_def fcn_layer9_shape tf_add_def and_then_def)

text \<open>The feature maps of the 160 x 576 images of \<open>run\<close>: 20 x 72, 10 x 36 and 5 x 18.\<close>

theorem layers_skip_shapes_witness:
  "fcn_layer9 [1, 10, 36, 512] [1, 5, 18, 4096] 2 = Inr [1, 10, 36, 512] \<and>
   length [1 :: nat, 10, 36, 512] = 4 \<and> last [1 :: nat, 10, 36, 512] = last [1 :: nat, 10, 36, 512] \<and>
   fcn_layer10 [1, 20, 72, 256] [1, 10, 36, 512] [1, 5, 18, 4096] 2 = Inr [1, 20, 72, 256] \<and>
   length [1 :: nat, 20, 72, 256] = 4 \<and> last [1 :: nat, 20, 72, 256] = last [1 :: nat, 20, 72, 256] \<and>
   (1 :: nat) = 1 \<and> (10 :: nat) = 2 * 5 \<and> (36 :: nat) = 2 * 18 \<and>
   (20 :: nat) = 2 * 10 \<and> (72 :: nat) = 2 * 36 \<and>
   layers [1, 20, 72, 256] [1, 10, 36, 512] [1, 5, 18, 4096] 2 = Inr [1, 8 * 20, 8 * 72, 2]"
proof -
  have h: "(1 :: nat) = 1 \<and> (10 :: nat) = 2 * 5 \<and> (36 :: nat) = 2 * 18 \<and> (1 :: nat) = 1 \<and>
      (20 :: nat) = 2 * 10 \<and> (72 :: nat) = 2 * 36"
    by simp
  from layers_skip_shapes [where ?vgg_layer4_out = "[1, 10, 36, 512]"
      and ?vgg_layer7_out = "[1, 5, 18, 4096]" and ?vgg_layer3_out = "[1, 20, 72, 256]"
      and num_classes = 2 and ?s9.0 = "[1, 10, 36, 512]" and ?s10.0 = "[1, 20, 72, 256]"
      and ?n4.0 = 1 and ?h4.0 = 10 and ?w4.0 = 36 and ?c4.0 = 512
      and ?n7.0 = 1 and ?h7.0 = 5 and ?w7.0 = 18 and ?c7.0 = 4096
      and ?n3.0 = 1 and ?h3.0 = 20 and ?w3.0 = 72 and ?c3.0 = 256]
    vgg_shapes_160_576 h
  show ?thesis
    by blast
qed

text \<open>
  C10. Called with \<open>epochs = 0\<close>, \<open>train_nn\<close> returns at once and leaves the world as it
  found it: the record of calls is unchanged (no optimization step, no call of the batch
  generator, no loss printed) and so are the session state (the model parameters) and
  the outside world.
\<close>

theorem train_nn_zero_epochs:
  "train_nn sess 0 batch_size get_batches_fn train_op cross_entropy_loss input_image
     correct_label keep_prob learning_rate w = Returned () w"
  by (simp add: train_nn_def range_py_def)

end
